theory Spec2Isabelle
  imports Complex_Main "HOL-Library.AList"
begin

section \<open>Values, errors and the object store\<close>

text \<open>
  The module \<^verbatim>\<open>ratinabox/contribs/TaskEnvironment.py\<close> is modelled as it is written.
  Python numbers (\<^verbatim>\<open>int\<close> and \<^verbatim>\<open>float\<close>) are the reals, so rounding is not part of
  the model. Objects that the code mutates or aliases live in a store: an address is an
  index into the list of all objects of its class ever allocated, a fresh object is
  appended, and nothing is ever freed (Python references never dangle). Every
  exception the code can raise is a value of \<open>error\<close>; a method that mutates the
  store returns the outcome together with the store as the exception left it.
\<close>

type_synonym ref = nat

datatype error =
    TypeError | ValueError | KeyError | IndexError | AttributeError
  | UnboundLocalError | NotImplementedError

subsection \<open>Decay laws\<close>

text \<open>
  \<^verbatim>\<open>Reward.decay_preset\<close> maps a name to a lambda of two arguments \<^verbatim>\<open>(a, x)\<close>, and
  \<^verbatim>\<open>Reward.decay_knobs_preset\<close> maps a name to the default knob list.
\<close>

definition decay_preset :: "string \<rightharpoonup> (real \<Rightarrow> real \<Rightarrow> real)" where
  "decay_preset = map_of
     [(''constant'', \<lambda>a x. a),
      (''linear'', \<lambda>a x. a * x),
      (''exponential'', \<lambda>a x. a * exp x),
      (''none'', \<lambda>a x. 0)]"

definition decay_knobs_preset :: "string \<rightharpoonup> real list" where
  "decay_knobs_preset = map_of
     [(''linear'', [1]),
      (''constant'', [1]),
      (''exponential'', [2]),
      (''none'', [])]"

text \<open>
  The attribute \<^verbatim>\<open>self.decay\<close> is a callable: either
  \<^verbatim>\<open>functools.partial(lambda a, x: ..., *knobs)\<close> (\<open>Partial\<close> of the two-argument lambda and
  the knobs already supplied; the bare lambda is \<open>Partial f []\<close>), or a function of
  the state handed in by the caller (\<open>Custom\<close>). \<open>call_decay\<close> is the call
  \<^verbatim>\<open>self.decay(state)\<close>: the lambda takes exactly two arguments, so with any number of
  knobs other than one the call raises \<^verbatim>\<open>TypeError\<close>.
\<close>

datatype callable = Partial "real \<Rightarrow> real \<Rightarrow> real" "real list" | Custom "real \<Rightarrow> real"

fun call_decay :: "callable \<Rightarrow> real \<Rightarrow> error + real" where
  "call_decay (Partial f [a]) x = Inr (f a x)"
| "call_decay (Partial f ks) x = Inl TypeError"
| "call_decay (Custom g) x = Inr (g x)"

subsection \<open>The classes \<^verbatim>\<open>Reward\<close> and \<^verbatim>\<open>RewardCache\<close>\<close>

text \<open>
  \<^verbatim>\<open>self.history\<close> is a dictionary of two lists. It is an object of its own in the store,
  because \<^verbatim>\<open>copy.copy\<close> of a \<^verbatim>\<open>Reward\<close> is shallow: the copy and the original share it.
\<close>

record History =
  h_state :: "real list"
  h_expire_clock :: "real list"

record Reward =
  state :: real
  dt :: real
  expire_clock :: real
  preset :: string
  decay_knobs :: "real list"
  decay :: callable
  external_drive :: "(unit \<Rightarrow> real) option"
  external_drive_strength :: real
  history :: ref

record RewardCache =
  cache :: "ref list"
  verbose :: bool

text \<open>
  The class \<^verbatim>\<open>Agent\<close> belongs to \<^verbatim>\<open>ratinabox.Agent\<close>, outside this module. Of an agent
  the record keeps the attributes this module reads or writes: \<^verbatim>\<open>pos\<close>, \<^verbatim>\<open>dt\<close>, \<^verbatim>\<open>t\<close>,
  \<^verbatim>\<open>reward\<close> (absent until \<^verbatim>\<open>add_agents\<close> sets it) and \<^verbatim>\<open>history['pos']\<close>.
\<close>

record Agent =
  pos :: "real list"
  agent_dt :: real
  agent_t :: real
  agent_reward :: "ref option"
  pos_history :: "real list list"

record heap =
  rewards :: "Reward list"
  histories :: "History list"
  caches :: "RewardCache list"
  agents :: "Agent list"

definition empty_heap :: heap where
  "empty_heap = \<lparr>rewards = [], histories = [], caches = [], agents = []\<rparr>"

text \<open>The arguments of \<^verbatim>\<open>Reward.__init__\<close>, by the types its docstring allows.\<close>

datatype init_arg = InitValue real | InitFunction "unit \<Rightarrow> real"
datatype expire_arg = Numeric real | NoneValue | NonNumeric string
datatype decay_arg = DecayName string | DecayFunction "real \<Rightarrow> real" | DecayNone

text \<open>\<^verbatim>\<open>decay_knobs or self.decay_knobs_preset[self.preset]\<close>: the dictionary is only
  read when the knob list is empty, and an unknown key raises \<^verbatim>\<open>KeyError\<close>.\<close>

definition knobs_or_preset :: "real list \<Rightarrow> string \<Rightarrow> error + real list" where
  "knobs_or_preset knobs name =
     (if knobs \<noteq> [] then Inr knobs
      else case decay_knobs_preset name of None \<Rightarrow> Inl KeyError | Some ks \<Rightarrow> Inr ks)"

definition new_reward :: "Reward \<Rightarrow> heap \<Rightarrow> ref \<times> heap" where
  "new_reward r h = (length (rewards h), h\<lparr>rewards := rewards h @ [r]\<rparr>)"

definition new_history :: "heap \<Rightarrow> ref \<times> heap" where
  "new_history h =
     (length (histories h),
      h\<lparr>histories := histories h @ [\<lparr>h_state = [], h_expire_clock = []\<rparr>]\<rparr>)"

definition Reward_init ::
  "init_arg \<Rightarrow> real \<Rightarrow> expire_arg \<Rightarrow> decay_arg \<Rightarrow> real list \<Rightarrow> (unit \<Rightarrow> real) option \<Rightarrow> real
     \<Rightarrow> heap \<Rightarrow> (error + ref) \<times> heap" where
  "Reward_init init_state dt0 expire decay0 knobs drive strength h =
     (let st = (case init_state of InitValue v \<Rightarrow> v | InitFunction f \<Rightarrow> f ());
          ec = (case expire of Numeric v \<Rightarrow> v | NoneValue \<Rightarrow> dt0 | NonNumeric s \<Rightarrow> dt0);
          built =
            (case decay0 of
               DecayName name \<Rightarrow>
                 (case knobs_or_preset knobs name of
                    Inl e \<Rightarrow> Inl e
                  | Inr ks \<Rightarrow>
                      (case decay_preset name of
                         None \<Rightarrow> Inl KeyError
                       | Some f \<Rightarrow> Inr (name, ks, Partial f ks)))
             | DecayFunction g \<Rightarrow>
                 (case knobs_or_preset knobs ''custom'' of
                    Inl e \<Rightarrow> Inl e
                  | Inr ks \<Rightarrow> Inr (''custom'', ks, Custom g))
             | DecayNone \<Rightarrow>
                 (case knobs_or_preset knobs ''constant'' of
                    Inl e \<Rightarrow> Inl e
                  | Inr ks \<Rightarrow>
                      (case decay_preset ''constant'' of
                         None \<Rightarrow> Inl KeyError
                       | Some f \<Rightarrow> Inr (''constant'', ks, Partial f []))))
      in case built of
           Inl e \<Rightarrow> (Inl e, h)
         | Inr (name, ks, d) \<Rightarrow>
             (let (hist, h1) = new_history h;
                  (p, h2) = new_reward
                    \<lparr>state = st, dt = dt0, expire_clock = ec, preset = name,
                     decay_knobs = ks, decay = d, external_drive = drive,
                     external_drive_strength = strength, history = hist\<rparr> h1
              in (Inr p, h2)))"

text \<open>\<^verbatim>\<open>Reward.get_delta(state=None)\<close>.\<close>

definition get_delta :: "Reward \<Rightarrow> real option \<Rightarrow> error + real" where
  "get_delta r state0 =
     (let s = (case state0 of None \<Rightarrow> state r | Some v \<Rightarrow> v)
      in case external_drive r of
           Some drive \<Rightarrow>
             (let target_gradient = drive ();
                  strength = external_drive_strength r
              in case call_decay (decay r) s of
                   Inl e \<Rightarrow> Inl e
                 | Inr d \<Rightarrow> Inr (strength * (target_gradient - s) - d))
         | None \<Rightarrow>
             (case call_decay (decay r) s of
                Inl e \<Rightarrow> Inl e
              | Inr d \<Rightarrow> Inr (- d)))"

text \<open>\<^verbatim>\<open>Reward.update()\<close> on the object at address \<open>p\<close>. The result is \<^verbatim>\<open>True\<close> while the
  reward is still active.\<close>

definition Reward_update :: "ref \<Rightarrow> heap \<Rightarrow> (error + bool) \<times> heap" where
  "Reward_update p h =
     (let r = rewards h ! p
      in case get_delta r None of
           Inl e \<Rightarrow> (Inl e, h)
         | Inr delta \<Rightarrow>
             (let r1 = r\<lparr>state := state r + delta * dt r\<rparr>;
                  r2 = r1\<lparr>expire_clock := expire_clock r1 - dt r1\<rparr>;
                  hist = histories h ! history r2;
                  hist1 = hist\<lparr>h_state := h_state hist @ [state r2]\<rparr>;
                  hist2 = hist1\<lparr>h_expire_clock := h_expire_clock hist1 @ [expire_clock r2]\<rparr>
              in (Inr (\<not> (expire_clock r2 \<le> 0)),
                  h\<lparr>rewards := (rewards h)[p := r2],
                    histories := (histories h)[history r2 := hist2]\<rparr>)))"

text \<open>\<^verbatim>\<open>RewardCache()\<close>, \<^verbatim>\<open>RewardCache.append(reward, copymode=True)\<close> (the argument is
  \<^verbatim>\<open>None\<close> or a reward) and \<^verbatim>\<open>copy.copy(reward)\<close>, which allocates a new \<^verbatim>\<open>Reward\<close> with the
  same attribute values, the address of the history among them.\<close>

definition RewardCache_init :: "bool \<Rightarrow> heap \<Rightarrow> ref \<times> heap" where
  "RewardCache_init v h =
     (length (caches h), h\<lparr>caches := caches h @ [\<lparr>cache = [], verbose = v\<rparr>]\<rparr>)"

definition copy_reward :: "ref \<Rightarrow> heap \<Rightarrow> ref \<times> heap" where
  "copy_reward p h = new_reward (rewards h ! p) h"

definition push_cache :: "ref \<Rightarrow> ref \<Rightarrow> heap \<Rightarrow> heap" where
  "push_cache c p h =
     h\<lparr>caches := (caches h)[c := (caches h ! c)\<lparr>cache := cache (caches h ! c) @ [p]\<rparr>]\<rparr>"

definition RewardCache_append :: "ref \<Rightarrow> ref option \<Rightarrow> bool \<Rightarrow> heap \<Rightarrow> heap" where
  "RewardCache_append c reward copymode h =
     (case reward of
        None \<Rightarrow> h
      | Some p \<Rightarrow>
          if copymode then (let (q, h1) = copy_reward p h in push_cache c q h1)
          else push_cache c p h)"

text \<open>
  \<^verbatim>\<open>RewardCache.update()\<close> is \<^verbatim>\<open>for reward in self.cache: ...\<close> with
  \<^verbatim>\<open>self.cache.remove(reward)\<close> inside the loop. A Python list iterator keeps an index
  into the live list: each round reads \<^verbatim>\<open>self.cache[i]\<close> if \<open>i\<close> is below the current
  length and then moves to \<open>i + 1\<close>; \<^verbatim>\<open>remove\<close> deletes the first entry that is the same
  object. The loop below is that iteration, on the list of addresses as it stands in
  each round. An exception of \<^verbatim>\<open>reward.update()\<close> leaves the loop.
\<close>

function RewardCache_update_loop :: "nat \<Rightarrow> ref \<Rightarrow> heap \<Rightarrow> (error + unit) \<times> heap" where
  "RewardCache_update_loop i c h =
     (if i < length (cache (caches h ! c)) then
        (let reward = cache (caches h ! c) ! i
         in case Reward_update reward h of
              (Inl e, h1) \<Rightarrow> (Inl e, h1)
            | (Inr reward_still_active, h1) \<Rightarrow>
                RewardCache_update_loop (Suc i) c
                  (if \<not> reward_still_active
                   then h1\<lparr>caches := (caches h1)
                          [c := (caches h1 ! c)\<lparr>cache := remove1 reward (cache (caches h1 ! c))\<rparr>]\<rparr>
                   else h1))
      else (Inr (), h))"
  by pat_completeness auto

lemma Reward_update_caches:
  "Reward_update p h = (res, h1) \<Longrightarrow> caches h1 = caches h"
  by (auto simp: Reward_update_def Let_def split: sum.splits)

lemma length_cache_remove1:
  "length (cache ((cs[c := (cs ! c)\<lparr>cache := remove1 x (cache (cs ! c))\<rparr>]) ! c))
     \<le> length (cache (cs ! c))"
  by (cases "c < length cs") (simp_all add: length_remove1 list_update_beyond)

termination RewardCache_update_loop
proof (relation "measure (\<lambda>(i, c, h). length (cache (caches h ! c)) - i)", goal_cases)
  case 1
  show ?case by simp
next
  case (2 i c h reward res h1 still)
  have "caches h1 = caches h"
    using 2 Reward_update_caches by (metis)
  then show ?case
    using 2(1) length_cache_remove1 [of "caches h" c reward]
    by (auto simp: less_diff_conv)
qed


definition RewardCache_update :: "ref \<Rightarrow> heap \<Rightarrow> (error + unit) \<times> heap" where
  "RewardCache_update c h = RewardCache_update_loop 0 c h"

text \<open>\<^verbatim>\<open>RewardCache.get_total()\<close>.\<close>

definition RewardCache_get_total :: "ref \<Rightarrow> heap \<Rightarrow> real" where
  "RewardCache_get_total c h =
     sum_list (map (\<lambda>p. state (rewards h ! p)) (cache (caches h ! c)))"


section \<open>Goals and the goal cache\<close>

text \<open>
  A \<^verbatim>\<open>SpatialGoal\<close> holds its position, its radius and \<^verbatim>\<open>self.reward\<close>, the address of
  the reward object it hands out. The back-reference \<^verbatim>\<open>self.env\<close> is passed to the
  methods as the list \<^verbatim>\<open>env.Agents\<close> they read from it. The distance
  \<^verbatim>\<open>env.get_distances_between___accounting_for_environment(x, y, wall_geometry="line_of_sight")\<close>
  is a method of the class \<^verbatim>\<open>Environment\<close>, outside this module: it is a parameter
  \<open>distance\<close>, for one position against one goal position.
\<close>

record SpatialGoal =
  goal_pos :: "real list"
  radius :: real
  reward :: ref

text \<open>The argument \<^verbatim>\<open>agents\<close> of \<^verbatim>\<open>check\<close>, by its annotation
  \<^verbatim>\<open>Union[List[Agent], Agent, List[int], int, None]\<close>, and what \<^verbatim>\<open>Goal._agents\<close> makes of it:
  an agent is wrapped in a list, an integer indexes \<^verbatim>\<open>env.Agents\<close> (a negative one from
  the end, as Python does), \<^verbatim>\<open>None\<close> is all agents, and a list is passed on as it is.\<close>

datatype agents_arg =
  AgentObject ref | AgentIndex int | AgentList "ref list" | IndexList "int list" | AgentsNone

datatype agent_item = ItemObject ref | ItemInt int

definition py_index :: "'a list \<Rightarrow> int \<Rightarrow> error + 'a" where
  "py_index xs i =
     (if 0 \<le> i then
        (if nat i < length xs then Inr (xs ! nat i) else Inl IndexError)
      else if nat (- i) \<le> length xs then Inr (xs ! (length xs - nat (- i)))
      else Inl IndexError)"

definition Goal_agents :: "ref list \<Rightarrow> agents_arg \<Rightarrow> error + agent_item list" where
  "Goal_agents env_Agents arg =
     (case arg of
        AgentObject a \<Rightarrow> Inr [ItemObject a]
      | AgentIndex i \<Rightarrow>
          (case py_index env_Agents i of Inl e \<Rightarrow> Inl e | Inr a \<Rightarrow> Inr [ItemObject a])
      | AgentsNone \<Rightarrow> Inr (map ItemObject env_Agents)
      | AgentList as \<Rightarrow> Inr (map ItemObject as)
      | IndexList js \<Rightarrow> Inr (map ItemInt js))"

text \<open>\<^verbatim>\<open>SpatialGoal._in_goal_radius(pos, goal_pos)\<close>: strictly inside the radius.\<close>

definition in_goal_radius ::
  "(real list \<Rightarrow> real list \<Rightarrow> real) \<Rightarrow> SpatialGoal \<Rightarrow> real list \<Rightarrow> real list \<Rightarrow> bool" where
  "in_goal_radius distance g p gp = (distance p gp < radius g)"

text \<open>The list comprehension of \<^verbatim>\<open>SpatialGoal.check\<close>: \<^verbatim>\<open>agent.pos\<close> of an integer raises
  \<^verbatim>\<open>AttributeError\<close>.\<close>

fun agents_reached_goal ::
  "(real list \<Rightarrow> real list \<Rightarrow> real) \<Rightarrow> heap \<Rightarrow> SpatialGoal \<Rightarrow> agent_item list \<Rightarrow> error + bool list" where
  "agents_reached_goal distance h g [] = Inr []"
| "agents_reached_goal distance h g (ItemInt j # rest) = Inl AttributeError"
| "agents_reached_goal distance h g (ItemObject a # rest) =
     (case agents_reached_goal distance h g rest of
        Inl e \<Rightarrow> Inl e
      | Inr bs \<Rightarrow> Inr (in_goal_radius distance g (pos (agents h ! a)) (goal_pos g) # bs))"

text \<open>\<^verbatim>\<open>np.where(flags)[0]\<close>: the positions of the true entries, in order.\<close>

definition np_where :: "bool list \<Rightarrow> nat list" where
  "np_where flags = filter (\<lambda>i. flags ! i) [0..<length flags]"

text \<open>\<^verbatim>\<open>SpatialGoal.check(agents)\<close> returns \<^verbatim>\<open>[self.reward] * len(rewarded_agents)\<close> and the
  indices \<^verbatim>\<open>rewarded_agents\<close>, which count positions in the list \<^verbatim>\<open>_agents\<close> returned.\<close>

definition SpatialGoal_check ::
  "(real list \<Rightarrow> real list \<Rightarrow> real) \<Rightarrow> ref list \<Rightarrow> heap \<Rightarrow> SpatialGoal \<Rightarrow> agents_arg
     \<Rightarrow> error + (ref list \<times> nat list)" where
  "SpatialGoal_check distance env_Agents h g arg =
     (case Goal_agents env_Agents arg of
        Inl e \<Rightarrow> Inl e
      | Inr items \<Rightarrow>
          (case agents_reached_goal distance h g items of
             Inl e \<Rightarrow> Inl e
           | Inr flags \<Rightarrow>
               (let rewarded_agents = np_where flags;
                    rewards0 = replicate (length rewarded_agents) (reward g)
                in Inr (rewards0, rewarded_agents))))"

text \<open>
  \<^verbatim>\<open>SpatialGoal.__eq__\<close> against a position is \<^verbatim>\<open>np.all(self.goal_pos == np.array(other))\<close>.
  For two vectors NumPy compares entry by entry, stretching a vector of length one to
  the other's length; vectors of lengths that do not fit compare unequal.
\<close>

definition np_all_eq :: "real list \<Rightarrow> real list \<Rightarrow> bool" where
  "np_all_eq xs ys =
     (if length xs = length ys then list_all2 (=) xs ys
      else if length xs = 1 then list_all2 (=) (replicate (length ys) (hd xs)) ys
      else if length ys = 1 then list_all2 (=) xs (replicate (length xs) (hd ys))
      else False)"

definition SpatialGoal_eq :: "SpatialGoal \<Rightarrow> real list \<Rightarrow> bool" where
  "SpatialGoal_eq g other = np_all_eq (goal_pos g) other"

text \<open>
  \<^verbatim>\<open>GoalCache\<close>: the goals, the two mode strings and the dictionary
  \<^verbatim>\<open>_if_sequential__last_acheived\<close>, which \<^verbatim>\<open>__init__\<close> fills with \<open>-1\<close> for the agents the
  environment has at that moment.
\<close>

record GoalCache =
  goals :: "SpatialGoal list"
  mode :: string
  agentmode :: string
  last_acheived :: "nat \<rightharpoonup> int"

definition GoalCache_init :: "ref list \<Rightarrow> string \<Rightarrow> string \<Rightarrow> GoalCache" where
  "GoalCache_init env_Agents mode0 agentmode0 =
     \<lparr>goals = [], mode = mode0, agentmode = agentmode0,
      last_acheived = (\<lambda>i. if i < length env_Agents then Some (- 1) else None)\<rparr>"

definition GoalCache_append :: "SpatialGoal \<Rightarrow> GoalCache \<Rightarrow> GoalCache" where
  "GoalCache_append g gc = gc\<lparr>goals := goals gc @ [g]\<rparr>"

definition GoalCache_clear :: "GoalCache \<Rightarrow> GoalCache" where
  "GoalCache_clear gc = gc\<lparr>goals := []\<rparr>"

text \<open>\<^verbatim>\<open>GoalCache.find(goal)\<close>: the first goal of the cache equal to the argument, or
  \<^verbatim>\<open>None\<close> when the loop ends without a \<^verbatim>\<open>return\<close>.\<close>

definition GoalCache_find :: "GoalCache \<Rightarrow> real list \<Rightarrow> SpatialGoal option" where
  "GoalCache_find gc other = List.find (\<lambda>cache_goal. SpatialGoal_eq cache_goal other) (goals gc)"

text \<open>
  \<^verbatim>\<open>_agentmode_is_interact\<close> is \<^verbatim>\<open>pass\<close>. \<^verbatim>\<open>_handle_agentmode\<close> calls it for the mode
  \<^verbatim>\<open>"interact"\<close>; for \<^verbatim>\<open>"parallel"\<close> it calls \<^verbatim>\<open>self._agentmode_is_parallel\<close>, an attribute
  the class does not have; for any other mode it does nothing.
\<close>

definition agentmode_is_interact :: "bool \<Rightarrow> GoalCache \<Rightarrow> GoalCache" where
  "agentmode_is_interact remove_finished gc = gc"

definition handle_agentmode :: "bool \<Rightarrow> GoalCache \<Rightarrow> error + GoalCache" where
  "handle_agentmode remove_finished gc =
     (if agentmode gc = ''interact'' then Inr (agentmode_is_interact remove_finished gc)
      else if agentmode gc = ''parallel'' then Inl AttributeError
      else Inr gc)"

text \<open>
  The test \<^verbatim>\<open>if solution_agents == i\<close> compares a NumPy array of indices with the integer
  \<open>i\<close> entry by entry and takes the truth value of the result: an empty array is false,
  an array of one entry is that entry, a longer one raises \<^verbatim>\<open>ValueError\<close>.
\<close>

definition array_truth :: "bool list \<Rightarrow> error + bool" where
  "array_truth bs = (case bs of [] \<Rightarrow> Inr False | [b] \<Rightarrow> Inr b | _ \<Rightarrow> Inl ValueError)"

text \<open>
  The sequential branch of \<^verbatim>\<open>GoalCache.check\<close>: the loop
  \<^verbatim>\<open>for i, agent in enumerate(self.env.Agents)\<close>, from index \<open>i\<close> on, with the two result
  lists built so far. An exception leaves the cache as the rounds before it made it.
\<close>

fun check_sequential ::
  "(real list \<Rightarrow> real list \<Rightarrow> real) \<Rightarrow> ref list \<Rightarrow> heap \<Rightarrow> bool \<Rightarrow> nat \<Rightarrow> ref list
     \<Rightarrow> ref list list \<Rightarrow> nat list \<Rightarrow> GoalCache
     \<Rightarrow> (error + ref list list \<times> nat list) \<times> GoalCache" where
  "check_sequential distance env_Agents h remove_finished i [] rewards0 agents0 gc =
     (Inr (rewards0, agents0), gc)"
| "check_sequential distance env_Agents h remove_finished i (agent # rest) rewards0 agents0 gc =
     (case last_acheived gc i of
        None \<Rightarrow> (Inl KeyError, gc)
      | Some l \<Rightarrow>
          (let next = l + 1
           in case py_index (goals gc) next of
                Inl e \<Rightarrow> (Inl e, gc)
              | Inr goal \<Rightarrow>
                  (case SpatialGoal_check distance env_Agents h goal (AgentObject agent) of
                     Inl e \<Rightarrow> (Inl e, gc)
                   | Inr (reward0, solution_agents) \<Rightarrow>
                       (case array_truth (map (\<lambda>a. a = i) solution_agents) of
                          Inl e \<Rightarrow> (Inl e, gc)
                        | Inr satisfied \<Rightarrow>
                            (let rewards1 = (if satisfied then rewards0 @ [reward0] else rewards0);
                                 agents1 = (if satisfied then agents0 @ [i] else agents0);
                                 gc1 = (if satisfied
                                        then gc\<lparr>last_acheived := (last_acheived gc)(i \<mapsto> next)\<rparr>
                                        else gc)
                             in case handle_agentmode remove_finished gc1 of
                                  Inl e \<Rightarrow> (Inl e, gc1)
                                | Inr gc2 \<Rightarrow>
                                    check_sequential distance env_Agents h remove_finished
                                      (Suc i) rest rewards1 agents1 gc2)))))"

text \<open>The list comprehension \<^verbatim>\<open>[goal.check() for goal in self.goals]\<close> of the
  nonsequential branch.\<close>

fun check_all_goals ::
  "(real list \<Rightarrow> real list \<Rightarrow> real) \<Rightarrow> ref list \<Rightarrow> heap \<Rightarrow> SpatialGoal list
     \<Rightarrow> error + (ref list \<times> nat list) list" where
  "check_all_goals distance env_Agents h [] = Inr []"
| "check_all_goals distance env_Agents h (goal # rest) =
     (case SpatialGoal_check distance env_Agents h goal AgentsNone of
        Inl e \<Rightarrow> Inl e
      | Inr pair \<Rightarrow>
          (case check_all_goals distance env_Agents h rest of
             Inl e \<Rightarrow> Inl e
           | Inr pairs \<Rightarrow> Inr (pair # pairs)))"

text \<open>
  \<^verbatim>\<open>GoalCache.check(remove_finished=True)\<close>. In the nonsequential branch
  \<^verbatim>\<open>rewards, solution_agents = zip(*[...])\<close> has nothing to unpack when there is no goal
  (\<^verbatim>\<open>ValueError\<close>), and the final \<^verbatim>\<open>return rewards, agents\<close> reads the local name
  \<^verbatim>\<open>agents\<close>, which only the sequential branch assigns (\<^verbatim>\<open>UnboundLocalError\<close>).
\<close>

definition GoalCache_check ::
  "(real list \<Rightarrow> real list \<Rightarrow> real) \<Rightarrow> ref list \<Rightarrow> heap \<Rightarrow> bool \<Rightarrow> GoalCache
     \<Rightarrow> (error + ref list list \<times> nat list) \<times> GoalCache" where
  "GoalCache_check distance env_Agents h remove_finished gc =
     (if mode gc = ''sequential'' then
        check_sequential distance env_Agents h remove_finished 0 env_Agents [] [] gc
      else if mode gc = ''nonsequential'' then
        (case check_all_goals distance env_Agents h (goals gc) of
           Inl e \<Rightarrow> (Inl e, gc)
         | Inr pairs \<Rightarrow>
             if pairs = [] then (Inl ValueError, gc)
             else (case handle_agentmode remove_finished gc of
                     Inl e \<Rightarrow> (Inl e, gc)
                   | Inr gc1 \<Rightarrow> (Inl UnboundLocalError, gc1)))
      else (Inl ValueError, gc))"


section \<open>The task environments\<close>

text \<open>
  One record holds the attributes of a \<^verbatim>\<open>TaskEnvironment\<close> that this module reads or
  writes, those inherited from \<^verbatim>\<open>Environment\<close> (\<^verbatim>\<open>dimensionality\<close>, \<^verbatim>\<open>extent\<close>) and those
  a \<^verbatim>\<open>SpatialGoalEnvironment\<close> adds (\<^verbatim>\<open>possible_goals\<close>, \<^verbatim>\<open>goal_cache\<close>, \<^verbatim>\<open>n_goals\<close>).
  A Python dictionary is an association list in insertion order; \<open>AList.update\<close> is
  the assignment \<^verbatim>\<open>d[k] = v\<close>. Rendering and console output are not modelled.
\<close>

record Box =
  box_low :: "real list"
  box_high :: "real list"

record TaskEnvironment =
  Agents :: "ref list"
  env_t :: real
  env_dt :: real
  history_t :: "real list"
  teleport_on_reset :: bool
  observation_spaces :: "(string \<times> Box) list"
  action_spaces :: "(string \<times> Box) list"
  reward_caches :: "ref list"
  agent_names :: "string list"
  episodes_episode :: "int list"
  episodes_start :: "real list"
  episodes_end :: "real list"
  episodes_duration :: "real list"
  episode :: int
  dimensionality :: string
  extent :: "real list"
  possible_goals :: "SpatialGoal list"
  goal_cache :: GoalCache
  n_goals :: nat

definition dict_of :: "('k \<times> 'v) list \<Rightarrow> ('k \<times> 'v) list" where
  "dict_of kvs = foldl (\<lambda>d (k, v). AList.update k v d) [] kvs"

subsection \<open>\<^verbatim>\<open>add_agents\<close>\<close>

datatype agents_param =
  AgentParam ref | AgentListParam "ref list" | AgentDictParam "(string \<times> ref) list"

text \<open>\<^verbatim>\<open>str(n)\<close> for a natural number.\<close>

fun str_of_nat :: "nat \<Rightarrow> string" where
  "str_of_nat n =
     (if n < 10 then [''0123456789'' ! n]
      else str_of_nat (n div 10) @ [''0123456789'' ! (n mod 10)])"

text \<open>\<^verbatim>\<open>int(self.dimensionality[0])\<close>.\<close>

definition dimension_of :: "string \<Rightarrow> error + nat" where
  "dimension_of s =
     (case s of
        [] \<Rightarrow> Inl IndexError
      | ch # rest \<Rightarrow>
          if (48::nat) \<le> of_char ch \<and> of_char ch \<le> (57::nat) then Inr (of_char ch - 48)
          else Inl ValueError)"

text \<open>
  \<^verbatim>\<open>ext = [self.extent[i:i+2] for i in np.arange(0, len(self.extent), 2)]\<close> followed by
  \<^verbatim>\<open>lows, highs = np.array(list(zip(*ext)))\<close>: the unpacking needs exactly two rows, which
  a non-empty extent of even length gives.
\<close>

fun extent_pairs :: "real list \<Rightarrow> (real \<times> real) list" where
  "extent_pairs (lo # hi # rest) = (lo, hi) # extent_pairs rest"
| "extent_pairs rest = []"

definition extent_bounds :: "real list \<Rightarrow> error + (real list \<times> real list)" where
  "extent_bounds ext =
     (if ext = [] \<or> odd (length ext) then Inl ValueError
      else Inr (map fst (extent_pairs ext), map snd (extent_pairs ext)))"

text \<open>A Python list is true exactly when it is not empty.\<close>

definition list_truth :: "'a list \<Rightarrow> bool" where
  "list_truth xs = (xs \<noteq> [])"

text \<open>The body of the loop \<^verbatim>\<open>for (name, agent) in zip(names, agents)\<close>.\<close>

definition enlist_agent ::
  "real \<Rightarrow> string \<Rightarrow> ref \<Rightarrow> TaskEnvironment \<Rightarrow> heap \<Rightarrow> (error + unit) \<times> TaskEnvironment \<times> heap" where
  "enlist_agent maxvel name agent env h =
     (let env1 = env\<lparr>Agents := Agents env @ [agent]\<rparr>;
          env2 = env1\<lparr>agent_names := agent_names env1 @ [name]\<rparr>
      in case dimension_of (dimensionality env2) of
           Inl e \<Rightarrow> (Inl e, env2, h)
         | Inr D \<Rightarrow>
             (let env3 = env2\<lparr>action_spaces :=
                    AList.update name \<lparr>box_low = replicate D 0, box_high = replicate D maxvel\<rparr>
                      (action_spaces env2)\<rparr>
              in case extent_bounds (extent env3) of
                   Inl e \<Rightarrow> (Inl e, env3, h)
                 | Inr (lows, highs) \<Rightarrow>
                     (let env4 = env3\<lparr>observation_spaces :=
                            AList.update name \<lparr>box_low = lows, box_high = highs\<rparr>
                              (observation_spaces env3)\<rparr>;
                          (c, h1) = RewardCache_init False h;
                          env5 = env4\<lparr>reward_caches := reward_caches env4 @ [c]\<rparr>;
                          h2 = h1\<lparr>agents := (agents h1)
                                 [agent := (agents h1 ! agent)\<lparr>agent_reward := Some c\<rparr>]\<rparr>;
                          h3 = h2\<lparr>agents := (agents h2)
                                 [agent := (agents h2 ! agent)\<lparr>agent_t := env_t env5\<rparr>]\<rparr>
                      in (Inr (), env5, h3))))"

fun enlist_agents ::
  "real \<Rightarrow> (string \<times> ref) list \<Rightarrow> TaskEnvironment \<Rightarrow> heap
     \<Rightarrow> (error + unit) \<times> TaskEnvironment \<times> heap" where
  "enlist_agents maxvel [] env h = (Inr (), env, h)"
| "enlist_agents maxvel ((name, agent) # rest) env h =
     (case enlist_agent maxvel name agent env h of
        (Inl e, env1, h1) \<Rightarrow> (Inl e, env1, h1)
      | (Inr u, env1, h1) \<Rightarrow> enlist_agents maxvel rest env1 h1)"

text \<open>
  \<^verbatim>\<open>TaskEnvironment.add_agents(agents, names=None, maxvel=50.0)\<close>. The guard on the time
  steps is \<^verbatim>\<open>if not ([agent.dt == self.dt for agent in agents])\<close>: it takes the truth value
  of the list of comparisons. A dictionary is refused by the first test, so the later
  branch for dictionaries is never taken.
\<close>

definition add_agents ::
  "agents_param \<Rightarrow> string list option \<Rightarrow> real \<Rightarrow> TaskEnvironment \<Rightarrow> heap
     \<Rightarrow> (error + unit) \<times> TaskEnvironment \<times> heap" where
  "add_agents param names maxvel env h =
     (case param of
        AgentDictParam d \<Rightarrow> (Inl TypeError, env, h)
      | _ \<Rightarrow>
          (let agents0 = (case param of
                            AgentParam a \<Rightarrow> [a]
                          | AgentListParam as \<Rightarrow> as
                          | AgentDictParam d \<Rightarrow> map snd d)
           in if \<not> list_truth (map (\<lambda>agent. agent_dt (agents h ! agent) = env_dt env) agents0)
              then (Inl NotImplementedError, env, h)
              else
                (let names1 =
                       (case names of
                          None \<Rightarrow>
                            (let start = length (Agents env)
                             in map (\<lambda>i. ''agent_'' @ str_of_nat (start + i)) [0..<length agents0])
                        | Some ns \<Rightarrow> ns)
                 in enlist_agents maxvel (zip names1 agents0) env h)))"


subsection \<open>Episodes and \<^verbatim>\<open>reset\<close>\<close>

text \<open>\<^verbatim>\<open>xs[-1]\<close> raises \<^verbatim>\<open>IndexError\<close> on an empty list.\<close>

definition py_last :: "'a list \<Rightarrow> error + 'a" where
  "py_last xs = (if xs = [] then Inl IndexError else Inr (last xs))"

definition write_end_episode :: "TaskEnvironment \<Rightarrow> (error + unit) \<times> TaskEnvironment" where
  "write_end_episode env =
     (let env1 = env\<lparr>episodes_end := episodes_end env @ [env_t env]\<rparr>
      in case py_last (episodes_start env1) of
           Inl e \<Rightarrow> (Inl e, env1)
         | Inr start \<Rightarrow>
             (Inr (), env1\<lparr>episodes_duration := episodes_duration env1 @ [env_t env1 - start]\<rparr>))"

definition current_episode_start :: "TaskEnvironment \<Rightarrow> error + real" where
  "current_episode_start env =
     (if \<not> (0 < length (episodes_start env)) then Inr 0
      else case py_last (episodes_end env) of
             Inl e \<Rightarrow> Inl e
           | Inr end0 \<Rightarrow> Inr (end0 + env_dt env))"

definition write_start_episode :: "TaskEnvironment \<Rightarrow> (error + unit) \<times> TaskEnvironment" where
  "write_start_episode env =
     (let env1 = env\<lparr>episodes_episode := episodes_episode env @ [episode env]\<rparr>
      in case current_episode_start env1 of
           Inl e \<Rightarrow> (Inl e, env1)
         | Inr start \<Rightarrow> (Inr (), env1\<lparr>episodes_start := episodes_start env1 @ [start]\<rparr>))"

text \<open>
  \<^verbatim>\<open>TaskEnvironment.reset\<close>. With \<^verbatim>\<open>teleport_on_reset\<close> every agent goes through
  \<^verbatim>\<open>agent.update()\<close>, receives \<^verbatim>\<open>self.observation_spaces.sample()\<close> as its position and has
  the last entry of its position history overwritten; the first two belong to other
  modules and draw random numbers, so the three steps together are a parameter
  \<open>teleport\<close> on the agent's record.
\<close>

definition teleport_agents :: "(Agent \<Rightarrow> Agent) \<Rightarrow> ref list \<Rightarrow> heap \<Rightarrow> heap" where
  "teleport_agents teleport as h =
     foldl (\<lambda>h1 agent. h1\<lparr>agents := (agents h1)[agent := teleport (agents h1 ! agent)]\<rparr>) h as"

definition TaskEnvironment_reset ::
  "(Agent \<Rightarrow> Agent) \<Rightarrow> TaskEnvironment \<Rightarrow> heap \<Rightarrow> (error + unit) \<times> TaskEnvironment \<times> heap" where
  "TaskEnvironment_reset teleport env h =
     (case (if 0 < length (episodes_start env) then write_end_episode env else (Inr (), env)) of
        (Inl e, env1) \<Rightarrow> (Inl e, env1, h)
      | (Inr u, env1) \<Rightarrow>
          (let h1 = (if teleport_on_reset env1 then teleport_agents teleport (Agents env1) h else h);
               env2 = env1\<lparr>episode := episode env1 + 1\<rparr>
           in case write_start_episode env2 of
                (Inl e, env3) \<Rightarrow> (Inl e, env3, h1)
              | (Inr u, env3) \<Rightarrow> (Inr (), env3, h1)))"

text \<open>\<^verbatim>\<open>get_observation\<close> and \<^verbatim>\<open>get_reward\<close>: dictionaries keyed by agent name. An agent
  without the attribute \<^verbatim>\<open>reward\<close> raises \<^verbatim>\<open>AttributeError\<close>.\<close>

definition get_observation :: "TaskEnvironment \<Rightarrow> heap \<Rightarrow> (string \<times> real list) list" where
  "get_observation env h =
     dict_of (map (\<lambda>(name, agent). (name, pos (agents h ! agent)))
                (zip (agent_names env) (Agents env)))"

fun agent_totals :: "heap \<Rightarrow> (string \<times> ref) list \<Rightarrow> error + (string \<times> real) list" where
  "agent_totals h [] = Inr []"
| "agent_totals h ((name, agent) # rest) =
     (case agent_reward (agents h ! agent) of
        None \<Rightarrow> Inl AttributeError
      | Some c \<Rightarrow>
          (case agent_totals h rest of
             Inl e \<Rightarrow> Inl e
           | Inr kvs \<Rightarrow> Inr ((name, RewardCache_get_total c h) # kvs)))"

definition get_reward :: "TaskEnvironment \<Rightarrow> heap \<Rightarrow> error + (string \<times> real) list" where
  "get_reward env h =
     (case agent_totals h (zip (agent_names env) (Agents env)) of
        Inl e \<Rightarrow> Inl e
      | Inr kvs \<Rightarrow> Inr (dict_of kvs))"

text \<open>
  \<^verbatim>\<open>SpatialGoalEnvironment.reset(goal_locations=None, n_objectives=None)\<close>. The loop
  \<^verbatim>\<open>for g in range(ng)\<close> runs after \<^verbatim>\<open>self.goal_cache.clear()\<close> and, for a given
  \<^verbatim>\<open>goal_locations\<close>, looks each location up with \<^verbatim>\<open>self.goal_cache.find\<close>, that is among
  the goals of the cache as it stands in that round. Without \<^verbatim>\<open>goal_locations\<close> each
  round asks \<^verbatim>\<open>_propose_spatial_goal\<close>, which draws a random candidate through NumPy:
  it is the parameter \<open>propose\<close>, from the candidates and the round to the goal
  drawn (or the exception the draw raises).
\<close>

fun push_located :: "real list list \<Rightarrow> GoalCache \<Rightarrow> (error + unit) \<times> GoalCache" where
  "push_located [] gc = (Inr (), gc)"
| "push_located (loc # rest) gc =
     (case GoalCache_find gc loc of
        None \<Rightarrow> (Inl ValueError, gc)
      | Some goal \<Rightarrow> push_located rest (GoalCache_append goal gc))"

fun push_proposed ::
  "(SpatialGoal list \<Rightarrow> nat \<Rightarrow> error + SpatialGoal) \<Rightarrow> SpatialGoal list \<Rightarrow> nat list \<Rightarrow> GoalCache
     \<Rightarrow> (error + unit) \<times> GoalCache" where
  "push_proposed propose cands [] gc = (Inr (), gc)"
| "push_proposed propose cands (g # rest) gc =
     (case propose cands g of
        Inl e \<Rightarrow> (Inl e, gc)
      | Inr goal \<Rightarrow> push_proposed propose cands rest (GoalCache_append goal gc))"

definition SpatialGoalEnvironment_reset ::
  "(Agent \<Rightarrow> Agent) \<Rightarrow> (SpatialGoal list \<Rightarrow> nat \<Rightarrow> error + SpatialGoal)
     \<Rightarrow> real list list option \<Rightarrow> nat option \<Rightarrow> TaskEnvironment \<Rightarrow> heap
     \<Rightarrow> (error + (string \<times> real list) list) \<times> TaskEnvironment \<times> heap" where
  "SpatialGoalEnvironment_reset teleport propose goal_locations n_objectives env h =
     (case TaskEnvironment_reset teleport env h of
        (Inl e, env1, h1) \<Rightarrow> (Inl e, env1, h1)
      | (Inr u, env1, h1) \<Rightarrow>
          (let ng = (case goal_locations of
                       Some locs \<Rightarrow> length locs
                     | None \<Rightarrow> (case n_objectives of Some n \<Rightarrow> n | None \<Rightarrow> n_goals env1));
               gc0 = GoalCache_clear (goal_cache env1);
               (res, gc1) =
                 (case goal_locations of
                    None \<Rightarrow> push_proposed propose (possible_goals env1) [0..<ng] gc0
                  | Some locs \<Rightarrow> push_located (take ng locs) gc0);
               env2 = env1\<lparr>goal_cache := gc1\<rparr>
           in case res of
                Inl e \<Rightarrow> (Inl e, env2, h1)
              | Inr u \<Rightarrow> (Inr (get_observation env2 h1), env2, h1)))"

subsection \<open>\<^verbatim>\<open>update\<close>, \<^verbatim>\<open>_is_terminal_state\<close> and \<^verbatim>\<open>step\<close>\<close>

text \<open>\<^verbatim>\<open>TaskEnvironment.update\<close> advances the clock; \<^verbatim>\<open>TaskEnvironment._is_terminal_state\<close>
  raises \<^verbatim>\<open>NotImplementedError\<close>; \<^verbatim>\<open>_is_truncated_state\<close> is \<^verbatim>\<open>False\<close>.\<close>

definition TaskEnvironment_update :: "TaskEnvironment \<Rightarrow> TaskEnvironment" where
  "TaskEnvironment_update env =
     (let env1 = env\<lparr>env_t := env_t env + env_dt env\<rparr>
      in env1\<lparr>history_t := history_t env1 @ [env_t env1]\<rparr>)"

definition TaskEnvironment_is_terminal_state ::
  "TaskEnvironment \<Rightarrow> heap \<Rightarrow> (error + bool) \<times> TaskEnvironment \<times> heap" where
  "TaskEnvironment_is_terminal_state env h = (Inl NotImplementedError, env, h)"

definition is_truncated_state :: "TaskEnvironment \<Rightarrow> bool" where
  "is_truncated_state env = False"

text \<open>
  \<^verbatim>\<open>SpatialGoalEnvironment._is_terminal_state\<close> begins with
  \<^verbatim>\<open>rewards, agents = self.goal_cache.check_and_remove_satisfied()\<close>. The class
  \<^verbatim>\<open>GoalCache\<close> defines \<^verbatim>\<open>check\<close>, \<^verbatim>\<open>append\<close>, \<^verbatim>\<open>clear\<close> and \<^verbatim>\<open>find\<close>, no method of that name
  and no \<^verbatim>\<open>__getattr__\<close>, so looking the attribute up raises \<^verbatim>\<open>AttributeError\<close> and the
  statements after it (the deposit into \<^verbatim>\<open>self.reward_caches[agent]\<close> and the count of
  the goals left) are not reached.
\<close>

definition SpatialGoalEnvironment_is_terminal_state ::
  "TaskEnvironment \<Rightarrow> heap \<Rightarrow> (error + bool) \<times> TaskEnvironment \<times> heap" where
  "SpatialGoalEnvironment_is_terminal_state env h = (Inl AttributeError, env, h)"

text \<open>\<^verbatim>\<open>SpatialGoalEnvironment.update\<close>: the clock, then the terminal test, then
  \<^verbatim>\<open>self.reset()\<close> if it holds.\<close>

definition SpatialGoalEnvironment_update ::
  "(Agent \<Rightarrow> Agent) \<Rightarrow> (SpatialGoal list \<Rightarrow> nat \<Rightarrow> error + SpatialGoal)
     \<Rightarrow> TaskEnvironment \<Rightarrow> heap \<Rightarrow> (error + unit) \<times> TaskEnvironment \<times> heap" where
  "SpatialGoalEnvironment_update teleport propose env h =
     (let env1 = TaskEnvironment_update env
      in case SpatialGoalEnvironment_is_terminal_state env1 h of
           (Inl e, env2, h2) \<Rightarrow> (Inl e, env2, h2)
         | (Inr terminal, env2, h2) \<Rightarrow>
             if terminal then
               (case SpatialGoalEnvironment_reset teleport propose None None env2 h2 of
                  (Inl e, env3, h3) \<Rightarrow> (Inl e, env3, h3)
                | (Inr obs, env3, h3) \<Rightarrow> (Inr (), env3, h3))
             else (Inr (), env2, h2))"

text \<open>
  The first loop of \<^verbatim>\<open>step\<close>: \<^verbatim>\<open>agent.update(dt=dt, drift_velocity=action, ...)\<close> for the
  agents zipped with the actions. \<^verbatim>\<open>Agent.update\<close> belongs to another module and is the
  parameter \<open>agent_update\<close>. The assignment \<^verbatim>\<open>dt = dt if dt is not None else agent.dt\<close>
  keeps the first agent's time step for the agents after it.
\<close>

fun apply_actions ::
  "(real \<Rightarrow> real list \<Rightarrow> real \<Rightarrow> Agent \<Rightarrow> Agent) \<Rightarrow> real \<Rightarrow> real option \<Rightarrow> (ref \<times> real list) list
     \<Rightarrow> heap \<Rightarrow> heap" where
  "apply_actions agent_update ratio dt0 [] h = h"
| "apply_actions agent_update ratio dt0 ((agent, action) # rest) h =
     (let dt1 = (case dt0 of Some d \<Rightarrow> d | None \<Rightarrow> agent_dt (agents h ! agent))
      in apply_actions agent_update ratio (Some dt1) rest
           (h\<lparr>agents := (agents h)[agent := agent_update dt1 action ratio (agents h ! agent)]\<rparr>))"

text \<open>The second loop: \<^verbatim>\<open>for reward_cache in self.reward_caches: reward_cache.update()\<close>.\<close>

fun update_reward_caches :: "ref list \<Rightarrow> heap \<Rightarrow> (error + unit) \<times> heap" where
  "update_reward_caches [] h = (Inr (), h)"
| "update_reward_caches (c # rest) h =
     (case RewardCache_update c h of
        (Inl e, h1) \<Rightarrow> (Inl e, h1)
      | (Inr u, h1) \<Rightarrow> update_reward_caches rest h1)"

text \<open>\<^verbatim>\<open>actions\<close> is a dictionary keyed by agent name, or a sequence that \<^verbatim>\<open>_dict\<close> zips
  with the agent names.\<close>

datatype actions_arg = ActionDict "(string \<times> real list) list" | ActionList "real list list"

definition action_values :: "TaskEnvironment \<Rightarrow> actions_arg \<Rightarrow> real list list" where
  "action_values env actions =
     (case actions of
        ActionDict d \<Rightarrow> map snd d
      | ActionList vs \<Rightarrow> map snd (dict_of (zip (agent_names env) vs)))"

text \<open>
  \<^verbatim>\<open>TaskEnvironment.step\<close> calls \<^verbatim>\<open>self.update\<close> and \<^verbatim>\<open>self._is_terminal_state\<close>, which a
  subclass overrides: they are the parameters \<open>update\<close> and \<open>is_terminal\<close>. The
  returned tuple is evaluated from left to right: observation, reward totals, the
  terminal flag for every agent, the truncation flag for every agent, and the info
  dictionary (here: the names that receive it).
\<close>

definition TaskEnvironment_step ::
  "(real \<Rightarrow> real list \<Rightarrow> real \<Rightarrow> Agent \<Rightarrow> Agent)
     \<Rightarrow> (TaskEnvironment \<Rightarrow> heap \<Rightarrow> (error + unit) \<times> TaskEnvironment \<times> heap)
     \<Rightarrow> (TaskEnvironment \<Rightarrow> heap \<Rightarrow> (error + bool) \<times> TaskEnvironment \<times> heap)
     \<Rightarrow> actions_arg \<Rightarrow> real option \<Rightarrow> real \<Rightarrow> TaskEnvironment \<Rightarrow> heap
     \<Rightarrow> (error + (string \<times> real list) list \<times> (string \<times> real) list \<times> (string \<times> bool) list
            \<times> (string \<times> bool) list \<times> string list)
        \<times> TaskEnvironment \<times> heap" where
  "TaskEnvironment_step agent_update update is_terminal actions dt0 ratio env h =
     (let h1 = apply_actions agent_update ratio dt0 (zip (Agents env) (action_values env actions)) h
      in case update_reward_caches (reward_caches env) h1 of
           (Inl e, h2) \<Rightarrow> (Inl e, env, h2)
         | (Inr u, h2) \<Rightarrow>
             (case update env h2 of
                (Inl e, env3, h3) \<Rightarrow> (Inl e, env3, h3)
              | (Inr u, env3, h3) \<Rightarrow>
                  (let observation = get_observation env3 h3
                   in case get_reward env3 h3 of
                        Inl e \<Rightarrow> (Inl e, env3, h3)
                      | Inr totals \<Rightarrow>
                          (case is_terminal env3 h3 of
                             (Inl e, env4, h4) \<Rightarrow> (Inl e, env4, h4)
                           | (Inr terminal, env4, h4) \<Rightarrow>
                               (Inr (observation, totals,
                                     dict_of (map (\<lambda>name. (name, terminal)) (agent_names env4)),
                                     dict_of (map (\<lambda>name. (name, is_truncated_state env4))
                                                (agent_names env4)),
                                     take 1 (agent_names env4)),
                                env4, h4)))))"

definition SpatialGoalEnvironment_step ::
  "(real \<Rightarrow> real list \<Rightarrow> real \<Rightarrow> Agent \<Rightarrow> Agent) \<Rightarrow> (Agent \<Rightarrow> Agent)
     \<Rightarrow> (SpatialGoal list \<Rightarrow> nat \<Rightarrow> error + SpatialGoal)
     \<Rightarrow> actions_arg \<Rightarrow> real option \<Rightarrow> real \<Rightarrow> TaskEnvironment \<Rightarrow> heap
     \<Rightarrow> (error + (string \<times> real list) list \<times> (string \<times> real) list \<times> (string \<times> bool) list
            \<times> (string \<times> bool) list \<times> string list)
        \<times> TaskEnvironment \<times> heap" where
  "SpatialGoalEnvironment_step agent_update teleport propose =
     TaskEnvironment_step agent_update
       (SpatialGoalEnvironment_update teleport propose)
       SpatialGoalEnvironment_is_terminal_state"


section \<open>Example stores\<close>

text \<open>
  \<open>r1_heap\<close> holds the reward of the module's own demonstration,
  \<^verbatim>\<open>Reward(1, dt=0.01, expire_clock=0.5, decay="linear", decay_knobs=[6])\<close>.
\<close>

definition r1_heap :: heap where
  "r1_heap =
     snd (Reward_init (InitValue 1) (1 / 100) (Numeric (1 / 2)) (DecayName ''linear'') [6]
            None 1 empty_heap)"

text \<open>
  \<open>ledger_of_two\<close> builds one ledger and one template reward with the given
  \<^verbatim>\<open>expire_clock\<close> argument, \<^verbatim>\<open>dt = 0.01\<close> and the preset \<^verbatim>\<open>"linear"\<close>, and appends the template
  twice with the default \<^verbatim>\<open>copymode\<close>: the ledger (address 0) holds two copies
  (addresses 1 and 2) of the template (address 0).
\<close>

definition ledger_of_two :: "expire_arg \<Rightarrow> heap" where
  "ledger_of_two expire =
     (let (c, h0) = RewardCache_init False empty_heap;
          (res, h1) = Reward_init (InitValue 1) (1 / 100) expire (DecayName ''linear'') []
                        None 1 h0
      in case res of
           Inl e \<Rightarrow> h1
         | Inr template \<Rightarrow>
             RewardCache_append c (Some template) True
               (RewardCache_append c (Some template) True h1))"

text \<open>\<open>unclocked_heap\<close>: an empty ledger (address 0) and the reward
  \<^verbatim>\<open>Reward(1, 0.01, decay="linear")\<close>, constructed without \<^verbatim>\<open>expire_clock\<close> (address 0).\<close>

definition unclocked_heap :: heap where
  "unclocked_heap =
     snd (Reward_init (InitValue 1) (1 / 100) NoneValue (DecayName ''linear'') [] None 1
            (snd (RewardCache_init False empty_heap)))"

text \<open>\<open>sweeps n c h\<close>: the store after \<open>n\<close> calls of \<^verbatim>\<open>update()\<close> on the ledger \<open>c\<close>.\<close>

fun sweeps :: "nat \<Rightarrow> ref \<Rightarrow> heap \<Rightarrow> heap" where
  "sweeps 0 c h = h"
| "sweeps (Suc n) c h = sweeps n c (snd (RewardCache_update c h))"

text \<open>\<open>default_decay_heap\<close>: the reward \<^verbatim>\<open>Reward(1, 0.01)\<close>, every other argument at its
  default (\<^verbatim>\<open>expire_clock=None\<close>, \<^verbatim>\<open>decay=None\<close>).\<close>

definition default_decay_heap :: heap where
  "default_decay_heap =
     snd (Reward_init (InitValue 1) (1 / 100) NoneValue DecayNone [] None 1 empty_heap)"

text \<open>\<open>none_decay_heap\<close>: the reward \<^verbatim>\<open>Reward(1, 0.01, expire_clock=1, decay="none")\<close>, with
  the preset's own (empty) knob list.\<close>

definition none_decay_heap :: heap where
  "none_decay_heap =
     snd (Reward_init (InitValue 1) (1 / 100) (Numeric 1) (DecayName ''none'') [] None 1
            empty_heap)"

text \<open>
  \<open>arena\<close>: the module's default reward
  \<^verbatim>\<open>Reward(1, 0.01, expire_clock=1, decay="linear")\<close> (address 0) and two agents (addresses
  0 and 1) that both stand at \<open>(0.5, 0.5)\<close>. \<open>two_ledgers\<close> is \<open>arena\<close> with two empty
  ledgers (addresses 0 and 1). \<open>manhattan\<close> stands in for the environment's distance
  in a room without walls. \<open>goal_at p\<close> is a goal at \<open>p\<close> with radius \<open>0.1\<close> whose reward is
  the default reward, and \<open>cache_of\<close> is \<^verbatim>\<open>GoalCache(env, mode, agentmode)\<close> followed by an
  \<^verbatim>\<open>append\<close> for each goal.
\<close>

definition manhattan :: "real list \<Rightarrow> real list \<Rightarrow> real" where
  "manhattan p q = sum_list (map (\<lambda>(a, b). \<bar>a - b\<bar>) (zip p q))"

definition arena :: heap where
  "arena =
     (snd (Reward_init (InitValue 1) (1 / 100) (Numeric 1) (DecayName ''linear'') [] None 1
             empty_heap))
     \<lparr>agents :=
        [\<lparr>pos = [1 / 2, 1 / 2], agent_dt = 1 / 100, agent_t = 0, agent_reward = None,
          pos_history = []\<rparr>,
         \<lparr>pos = [1 / 2, 1 / 2], agent_dt = 1 / 100, agent_t = 0, agent_reward = None,
          pos_history = []\<rparr>]\<rparr>"

definition two_ledgers :: heap where
  "two_ledgers = snd (RewardCache_init False (snd (RewardCache_init False arena)))"

definition goal_at :: "real list \<Rightarrow> SpatialGoal" where
  "goal_at p = \<lparr>goal_pos = p, radius = 1 / 10, reward = 0\<rparr>"

definition cache_of :: "ref list \<Rightarrow> string \<Rightarrow> string \<Rightarrow> SpatialGoal list \<Rightarrow> GoalCache" where
  "cache_of env_Agents mode0 agentmode0 gs =
     foldl (\<lambda>gc g. GoalCache_append g gc) (GoalCache_init env_Agents mode0 agentmode0) gs"

text \<open>
  \<open>room\<close>: a two-dimensional unit square with \<open>dt = 0.01\<close>, no agent yet, one candidate
  goal at \<open>(0.5, 0.5)\<close>, which is also the goal of the current episode. The record gives
  the attributes of the object directly; \<^verbatim>\<open>SpatialGoalEnvironment.__init__\<close> is not part of
  the model. \<open>slow_agent\<close>
  is a store with one agent whose time step is \<open>0.02\<close>. \<open>playing\<close> is \<open>room\<close> after
  \<^verbatim>\<open>add_agents\<close> of agent 0 of \<open>arena\<close>, with a copy of the default reward in the agent's
  ledger. \<open>stand_still\<close> is an \<^verbatim>\<open>Agent.update\<close> that leaves the agent where it is.
\<close>

definition room :: TaskEnvironment where
  "room =
     \<lparr>Agents = [], env_t = 0, env_dt = 1 / 100, history_t = [], teleport_on_reset = False,
      observation_spaces = [], action_spaces = [], reward_caches = [], agent_names = [],
      episodes_episode = [], episodes_start = [], episodes_end = [], episodes_duration = [],
      episode = 0, dimensionality = ''2D'', extent = [0, 1, 0, 1],
      possible_goals = [goal_at [1 / 2, 1 / 2]],
      goal_cache = cache_of [] ''sequential'' ''interact'' [goal_at [1 / 2, 1 / 2]],
      n_goals = 1\<rparr>"

definition slow_agent :: heap where
  "slow_agent =
     empty_heap\<lparr>agents :=
       [\<lparr>pos = [1 / 2, 1 / 2], agent_dt = 1 / 50, agent_t = 0, agent_reward = None,
         pos_history = []\<rparr>]\<rparr>"

definition playing :: "TaskEnvironment \<times> heap" where
  "playing =
     (case add_agents (AgentParam 0) None 50 room arena of
        (res, env, h) \<Rightarrow> (env, RewardCache_append 0 (Some 0) True h))"

definition stand_still :: "real \<Rightarrow> real list \<Rightarrow> real \<Rightarrow> Agent \<Rightarrow> Agent" where
  "stand_still dt0 drift_velocity ratio a = a"

section \<open>Properties of rewards and ledgers\<close>

lemmas init_simps =
  RewardCache_init_def Reward_init_def empty_heap_def knobs_or_preset_def
  decay_knobs_preset_def decay_preset_def new_history_def new_reward_def
  RewardCache_append_def push_cache_def copy_reward_def Let_def

lemma r1_heap_rewards:
  "rewards r1_heap =
     [\<lparr>state = 1, dt = 1 / 100, expire_clock = 1 / 2, preset = ''linear'',
       decay_knobs = [6], decay = Partial (\<lambda>a x. a * x) [6], external_drive = None,
       external_drive_strength = 1, history = 0\<rparr>]"
  by (simp add: r1_heap_def init_simps)

lemma ledger_of_two_eq:
  "ledger_of_two expire =
     \<lparr>rewards = replicate 3
        \<lparr>state = 1, dt = 1 / 100,
         expire_clock = (case expire of Numeric v \<Rightarrow> v | NoneValue \<Rightarrow> 1 / 100
                         | NonNumeric s \<Rightarrow> 1 / 100),
         preset = ''linear'', decay_knobs = [1], decay = Partial (\<lambda>a x. a * x) [1],
         external_drive = None, external_drive_strength = 1, history = 0\<rparr>,
      histories = [\<lparr>h_state = [], h_expire_clock = []\<rparr>],
      caches = [\<lparr>cache = [1, 2], verbose = False\<rparr>],
      agents = []\<rparr>"
  by (simp add: ledger_of_two_def init_simps numeral_3_eq_3)

lemmas sweep_simps =
  RewardCache_update_def Reward_update_def get_delta_def numeral_3_eq_3 numeral_2_eq_2 Let_def

text \<open>What a successful \<^verbatim>\<open>Reward(...)\<close> leaves in the store.\<close>

lemma Reward_init_result:
  assumes "Reward_init init_state dt0 expire decay0 knobs drive strength h = (Inr p, h1)"
  shows "p = length (rewards h) \<and> length (rewards h1) = Suc (length (rewards h))
       \<and> caches h1 = caches h
       \<and> dt (rewards h1 ! p) = dt0
       \<and> expire_clock (rewards h1 ! p) =
           (case expire of Numeric v \<Rightarrow> v | NoneValue \<Rightarrow> dt0 | NonNumeric s \<Rightarrow> dt0)"
  using assms
  by (auto simp: Reward_init_def new_history_def new_reward_def Let_def
           split: sum.splits prod.splits)

text \<open>A reward whose clock equals its time step reports inactive on its next update.\<close>

lemma Reward_update_expired:
  assumes "p < length (rewards h)"
    and "call_decay (decay (rewards h ! p)) (state (rewards h ! p)) = Inr d"
    and "expire_clock (rewards h ! p) = dt (rewards h ! p)"
  shows "\<exists>h1. Reward_update p h = (Inr False, h1) \<and> caches h1 = caches h"
  using assms
  by (auto simp: Reward_update_def get_delta_def Let_def split: option.splits)

text \<open>A sweep over a ledger of one reward that reports inactive leaves the ledger empty.\<close>

lemma sweep_single:
  assumes "c < length (caches h)" and "cache (caches h ! c) = [q]"
    and "Reward_update q h = (Inr False, h1)" and "caches h1 = caches h"
  shows "fst (RewardCache_update c h) = Inr ()
       \<and> cache (caches (snd (RewardCache_update c h)) ! c) = []"
proof -
  let ?h2 = "h1\<lparr>caches := (caches h1)
               [c := (caches h1 ! c)\<lparr>cache := remove1 q (cache (caches h1 ! c))\<rparr>]\<rparr>"
  have first_round: "RewardCache_update_loop 0 c h = RewardCache_update_loop (Suc 0) c ?h2"
    using assms by (subst RewardCache_update_loop.simps) simp
  have emptied: "cache (caches ?h2 ! c) = []"
    using assms by simp
  have second_round: "RewardCache_update_loop (Suc 0) c ?h2 = (Inr (), ?h2)"
    using emptied by (subst RewardCache_update_loop.simps) simp
  show ?thesis
    unfolding RewardCache_update_def first_round second_round using emptied by simp
qed

text \<open>
  A ledger that holds a single reward with \<open>expire_clock = k * dt\<close>, \<open>k\<close> a positive
  integer, \<open>dt\<close> positive and a decay law that returns a rate for every state, holds it
  through the first \<open>k - 1\<close> sweeps and is empty from the \<open>k\<close>-th sweep on.
\<close>

lemma Reward_update_effect:
  assumes "p < length (rewards h)"
    and "call_decay (decay (rewards h ! p)) (state (rewards h ! p)) = Inr d"
  shows "\<exists>h1. Reward_update p h
            = (Inr (0 < expire_clock (rewards h ! p) - dt (rewards h ! p)), h1)
         \<and> caches h1 = caches h \<and> length (rewards h1) = length (rewards h)
         \<and> decay (rewards h1 ! p) = decay (rewards h ! p)
         \<and> dt (rewards h1 ! p) = dt (rewards h ! p)
         \<and> expire_clock (rewards h1 ! p) = expire_clock (rewards h ! p) - dt (rewards h ! p)"
  using assms
  by (auto simp: Reward_update_def get_delta_def Let_def not_le split: option.splits)

lemma sweep_single_active:
  assumes "c < length (caches h)" and "cache (caches h ! c) = [q]"
    and "Reward_update q h = (Inr True, h1)" and "caches h1 = caches h"
  shows "RewardCache_update c h = (Inr (), h1)"
proof -
  have first_round: "RewardCache_update_loop 0 c h = RewardCache_update_loop (Suc 0) c h1"
    using assms by (subst RewardCache_update_loop.simps) simp
  have second_round: "RewardCache_update_loop (Suc 0) c h1 = (Inr (), h1)"
    using assms by (subst RewardCache_update_loop.simps) simp
  show ?thesis
    unfolding RewardCache_update_def first_round second_round ..
qed

lemma sweep_empty:
  "cache (caches h ! c) = [] \<Longrightarrow> RewardCache_update c h = (Inr (), h)"
  unfolding RewardCache_update_def by (subst RewardCache_update_loop.simps) simp

lemma sweeps_empty:
  "cache (caches h ! c) = [] \<Longrightarrow> cache (caches (sweeps j c h) ! c) = []"
  by (induction j arbitrary: h) (simp_all add: sweep_empty)

lemma single_reward_evicted_after_k_sweeps:
  assumes "c < length (caches h)" and "cache (caches h ! c) = [q]"
    and "q < length (rewards h)"
    and "\<forall>x. \<exists>d. call_decay (decay (rewards h ! q)) x = Inr d"
    and "0 < dt (rewards h ! q)"
    and "expire_clock (rewards h ! q) = real k * dt (rewards h ! q)"
    and "0 < k"
  shows "cache (caches (sweeps j c h) ! c) = (if j < k then [q] else [])"
  using assms
proof (induction j arbitrary: h k)
  case 0
  then show ?case by simp
next
  case (Suc j)
  let ?r = "rewards h ! q"
  obtain d where d: "call_decay (decay ?r) (state ?r) = Inr d"
    using Suc.prems(4) by blast
  obtain h1 where h1: "Reward_update q h = (Inr (0 < expire_clock ?r - dt ?r), h1)"
      "caches h1 = caches h" "length (rewards h1) = length (rewards h)"
      "decay (rewards h1 ! q) = decay ?r" "dt (rewards h1 ! q) = dt ?r"
      "expire_clock (rewards h1 ! q) = expire_clock ?r - dt ?r"
    using Reward_update_effect [OF Suc.prems(3) d] by blast
  have clock: "expire_clock ?r - dt ?r = real (k - 1) * dt ?r"
    using Suc.prems(6,7) by (simp add: of_nat_diff algebra_simps)
  show ?case
  proof (cases "k = 1")
    case True
    then have "expire_clock ?r - dt ?r = 0"
      using Suc.prems(6) by simp
    then have "Reward_update q h = (Inr False, h1)"
      using h1(1) by simp
    then have "cache (caches (snd (RewardCache_update c h)) ! c) = []"
      using sweep_single [OF Suc.prems(1,2) _ h1(2)] by simp
    then show ?thesis
      using True sweeps_empty by simp
  next
    case False
    then have k: "1 < k" using Suc.prems(7) by simp
    then have "1 < real k" by simp
    then have "0 < (real k - 1) * dt ?r"
      using Suc.prems(5) by simp
    then have "0 < expire_clock ?r - dt ?r"
      using Suc.prems(6) by (simp add: algebra_simps)
    then have "Reward_update q h = (Inr True, h1)"
      using h1(1) by simp
    then have sweep: "RewardCache_update c h = (Inr (), h1)"
      using sweep_single_active [OF Suc.prems(1,2) _ h1(2)] by simp
    have "cache (caches (sweeps j c h1) ! c) = (if j < k - 1 then [q] else [])"
    proof (rule Suc.IH)
      show "c < length (caches h1)" using h1(2) Suc.prems(1) by simp
      show "cache (caches h1 ! c) = [q]" using h1(2) Suc.prems(2) by simp
      show "q < length (rewards h1)" using h1(3) Suc.prems(3) by simp
      show "\<forall>x. \<exists>d. call_decay (decay (rewards h1 ! q)) x = Inr d"
        using h1(4) Suc.prems(4) by simp
      show "0 < dt (rewards h1 ! q)" using h1(5) Suc.prems(5) by simp
      show "expire_clock (rewards h1 ! q) = real (k - 1) * dt (rewards h1 ! q)"
        using h1(5,6) clock by simp
      show "0 < k - 1" using k by simp
    qed
    then show ?thesis
      using sweep k by auto
  qed
qed

text \<open>
  \<^bold>\<open>C1.\<close> The claim: for every reward, one call of \<^verbatim>\<open>update()\<close> changes \<^verbatim>\<open>state\<close> by exactly
  \<open>(drive_term - decay(state)) * dt\<close>, lowers \<^verbatim>\<open>expire_clock\<close> by \<^verbatim>\<open>dt\<close> and returns whether the
  lowered clock is positive. The code at \<^verbatim>\<open>Reward(1, 0.01)\<close> and at
  \<^verbatim>\<open>Reward(1, 0.01, expire_clock=1, decay="none")\<close>: both constructions succeed, but the
  first stores the two-argument lambda of the preset \<^verbatim>\<open>"constant"\<close> without its knob
  (the branch for a preset name wraps it in \<^verbatim>\<open>partial\<close>, this one does not) and the
  second wraps the lambda with the empty knob list of the preset \<^verbatim>\<open>"none"\<close>; in both the
  call \<^verbatim>\<open>self.decay(state)\<close> lacks an argument, so \<^verbatim>\<open>update()\<close> raises \<^verbatim>\<open>TypeError\<close> and
  leaves state, clock and history as they were.
\<close>

theorem Reward_update_raises_without_rate:
  "fst (Reward_init (InitValue 1) (1 / 100) NoneValue DecayNone [] None 1 empty_heap) = Inr 0
   \<and> decay (rewards default_decay_heap ! 0) = Partial (\<lambda>a x. a) []
   \<and> Reward_update 0 default_decay_heap = (Inl TypeError, default_decay_heap)
   \<and> fst (Reward_init (InitValue 1) (1 / 100) (Numeric 1) (DecayName ''none'') [] None 1
            empty_heap) = Inr 0
   \<and> decay (rewards none_decay_heap ! 0) = Partial (\<lambda>a x. 0) []
   \<and> Reward_update 0 none_decay_heap = (Inl TypeError, none_decay_heap)"
  by (simp add: default_decay_heap_def none_decay_heap_def init_simps Reward_update_def
        get_delta_def)

text \<open>
  On a reward \<open>r\<close> whose decay law returns the rate \<open>d\<close> for the current state, one call
  of \<^verbatim>\<open>update()\<close> changes \<^verbatim>\<open>state\<close> by exactly \<open>(drive_term - d) * dt\<close>, where \<open>drive_term\<close>
  is \<open>external_drive_strength * (external_drive() - state)\<close> when an external drive is
  configured and \<open>0\<close> otherwise; it lowers \<^verbatim>\<open>expire_clock\<close> by exactly \<^verbatim>\<open>dt\<close>; and it returns
  true if and only if the lowered clock is strictly positive.
\<close>

lemma Reward_update_contract:
  assumes "p < length (rewards h)"
    and "rewards h ! p = r"
    and "call_decay (decay r) (state r) = Inr d"
  shows "\<exists>h1. Reward_update p h = (Inr (0 < expire_clock r - dt r), h1)
           \<and> state (rewards h1 ! p) =
               state r +
               ((case external_drive r of
                   Some drive \<Rightarrow> external_drive_strength r * (drive () - state r)
                 | None \<Rightarrow> 0) - d) * dt r
           \<and> expire_clock (rewards h1 ! p) = expire_clock r - dt r"
  using assms
  by (auto simp: Reward_update_def get_delta_def Let_def not_le split: option.splits)

text \<open>The demonstration reward: state \<open>1\<close>, linear decay with knob \<open>6\<close>, \<open>dt = 0.01\<close>, clock
  \<open>0.5\<close>. One update gives state \<open>0.94\<close> and clock \<open>0.49\<close>, still active.\<close>

lemma Reward_update_contract_example:
  "\<exists>h1. Reward_update 0 r1_heap = (Inr True, h1)
      \<and> state (rewards h1 ! 0) = 47 / 50 \<and> expire_clock (rewards h1 ! 0) = 49 / 100"
  using Reward_update_contract [of 0 r1_heap "rewards r1_heap ! 0" 6]
  by (simp add: r1_heap_rewards)

text \<open>
  \<^bold>\<open>C2.\<close> The claim: a reward with \<open>expire_clock = k * dt\<close> leaves its ledger after exactly
  \<open>k\<close> sweeps, and a sweep evicts every reward that reports inactive without skipping
  the entries after it. The code at a ledger of two rewards with \<open>expire_clock = dt\<close>
  (\<open>k = 1\<close>): the first sweep updates and removes the first reward, the iterator then
  moves past the second one, which is neither updated nor removed; it leaves only with
  the second sweep.
\<close>

theorem RewardCache_update_skips_entry:
  "cache (caches (ledger_of_two (Numeric (1 / 100))) ! 0) = [1, 2]
   \<and> map expire_clock (rewards (ledger_of_two (Numeric (1 / 100)))) = [1 / 100, 1 / 100, 1 / 100]
   \<and> fst (RewardCache_update 0 (ledger_of_two (Numeric (1 / 100)))) = Inr ()
   \<and> cache (caches (snd (RewardCache_update 0 (ledger_of_two (Numeric (1 / 100))))) ! 0) = [2]
   \<and> map expire_clock (rewards (snd (RewardCache_update 0 (ledger_of_two (Numeric (1 / 100))))))
       = [1 / 100, 0, 1 / 100]
   \<and> cache (caches (snd (RewardCache_update 0
        (snd (RewardCache_update 0 (ledger_of_two (Numeric (1 / 100))))))) ! 0) = []"
  by (simp add: ledger_of_two_eq sweep_simps)

text \<open>
  \<^bold>\<open>C10.\<close> The claim: a reward constructed with \<^verbatim>\<open>expire_clock=None\<close> has the clock \<open>dt\<close>,
  so its first \<^verbatim>\<open>update()\<close> returns false and it leaves its ledger after exactly one
  sweep. The code at \<^verbatim>\<open>Reward(1, 0.01)\<close>: the clock is \<open>dt\<close>, but the first \<^verbatim>\<open>update()\<close>
  raises \<^verbatim>\<open>TypeError\<close> instead of returning false. The code at a ledger of two rewards
  constructed with \<^verbatim>\<open>expire_clock=None\<close> and the preset \<^verbatim>\<open>"linear"\<close>: after one sweep the
  second is still held, with its clock untouched.
\<close>

theorem Reward_without_clock_survives_sweep:
  "expire_clock (rewards default_decay_heap ! 0) = 1 / 100
   \<and> fst (Reward_update 0 default_decay_heap) = Inl TypeError
   \<and> map expire_clock (rewards (ledger_of_two NoneValue)) = [1 / 100, 1 / 100, 1 / 100]
   \<and> cache (caches (ledger_of_two NoneValue) ! 0) = [1, 2]
   \<and> fst (RewardCache_update 0 (ledger_of_two NoneValue)) = Inr ()
   \<and> cache (caches (snd (RewardCache_update 0 (ledger_of_two NoneValue))) ! 0) = [2]
   \<and> expire_clock (rewards (snd (RewardCache_update 0 (ledger_of_two NoneValue))) ! 2) = 1 / 100"
  by (simp add: ledger_of_two_eq default_decay_heap_def init_simps sweep_simps)

text \<open>
  A reward constructed with \<^verbatim>\<open>expire_clock\<close> \<^verbatim>\<open>None\<close> or any other non-numeric value has
  \<^verbatim>\<open>expire_clock = dt\<close>. If its decay law returns a rate for its state, its first
  \<^verbatim>\<open>update()\<close> returns false; and a ledger that holds nothing but this reward (appended
  with or without copying) is empty after one sweep.
\<close>

lemma Reward_without_clock_expires:
  assumes "\<forall>v. expire \<noteq> Numeric v"
    and "Reward_init init_state dt0 expire decay0 knobs drive strength h = (Inr p, h1)"
    and "call_decay (decay (rewards h1 ! p)) (state (rewards h1 ! p)) = Inr d"
    and "c < length (caches h1)"
    and "cache (caches h1 ! c) = []"
  shows "expire_clock (rewards h1 ! p) = dt0
       \<and> fst (Reward_update p h1) = Inr False
       \<and> length (cache (caches (RewardCache_append c (Some p) copymode h1) ! c)) = 1
       \<and> fst (RewardCache_update c (RewardCache_append c (Some p) copymode h1)) = Inr ()
       \<and> cache (caches (snd (RewardCache_update c
            (RewardCache_append c (Some p) copymode h1))) ! c) = []"
proof -
  from assms(2) have init:
      "p = length (rewards h)" "length (rewards h1) = Suc (length (rewards h))"
      "dt (rewards h1 ! p) = dt0"
      "expire_clock (rewards h1 ! p) =
         (case expire of Numeric v \<Rightarrow> v | NoneValue \<Rightarrow> dt0 | NonNumeric s \<Rightarrow> dt0)"
    using Reward_init_result by blast+
  have clock: "expire_clock (rewards h1 ! p) = dt0"
    using init(4) assms(1) by (cases expire) auto
  have valid: "p < length (rewards h1)"
    using init by simp
  have due: "expire_clock (rewards h1 ! p) = dt (rewards h1 ! p)"
    using clock init(3) by simp
  obtain h2 where first_update: "Reward_update p h1 = (Inr False, h2)"
    using Reward_update_expired [OF valid assms(3) due] by blast
  let ?h = "RewardCache_append c (Some p) copymode h1"
  obtain q where q:
      "cache (caches ?h ! c) = [q]" "q < length (rewards ?h)"
      "rewards ?h ! q = rewards h1 ! p" "c < length (caches ?h)"
    using assms(4,5) valid
    by (cases copymode)
       (auto simp: RewardCache_append_def push_cache_def copy_reward_def new_reward_def
                   nth_append)
  have "call_decay (decay (rewards ?h ! q)) (state (rewards ?h ! q)) = Inr d"
    using q(3) assms(3) by simp
  moreover have "expire_clock (rewards ?h ! q) = dt (rewards ?h ! q)"
    using q(3) due by simp
  ultimately obtain h3 where "Reward_update q ?h = (Inr False, h3)" "caches h3 = caches ?h"
    using Reward_update_expired [OF q(2)] by blast
  then have "fst (RewardCache_update c ?h) = Inr ()
       \<and> cache (caches (snd (RewardCache_update c ?h)) ! c) = []"
    using sweep_single [OF q(4) q(1)] by blast
  then show ?thesis
    using clock first_update q(1) by simp
qed


text \<open>\<^verbatim>\<open>Reward(1, 0.01, decay="linear")\<close> in a ledger of its own: clock \<open>0.01\<close>, first update
  false, ledger empty after one sweep.\<close>

lemma Reward_without_clock_expires_example:
  "expire_clock (rewards unclocked_heap ! 0) = 1 / 100
   \<and> fst (Reward_update 0 unclocked_heap) = Inr False
   \<and> length (cache (caches (RewardCache_append 0 (Some 0) True unclocked_heap) ! 0)) = 1
   \<and> fst (RewardCache_update 0 (RewardCache_append 0 (Some 0) True unclocked_heap)) = Inr ()
   \<and> cache (caches (snd (RewardCache_update 0
        (RewardCache_append 0 (Some 0) True unclocked_heap))) ! 0) = []"
  using Reward_without_clock_expires
          [of NoneValue "InitValue 1" "1 / 100" "DecayName ''linear''" "[]" None 1
              "snd (RewardCache_init False empty_heap)" 0 unclocked_heap 1 0 True]
  by (simp add: unclocked_heap_def init_simps)


section \<open>Properties of goals and the goal cache\<close>

lemma arena_agents:
  "agents arena =
     [\<lparr>pos = [1 / 2, 1 / 2], agent_dt = 1 / 100, agent_t = 0, agent_reward = None,
       pos_history = []\<rparr>,
      \<lparr>pos = [1 / 2, 1 / 2], agent_dt = 1 / 100, agent_t = 0, agent_reward = None,
       pos_history = []\<rparr>]"
  by (simp add: arena_def)

lemma arena_rewards:
  "rewards arena =
     [\<lparr>state = 1, dt = 1 / 100, expire_clock = 1, preset = ''linear'',
       decay_knobs = [1], decay = Partial (\<lambda>a x. a * x) [1], external_drive = None,
       external_drive_strength = 1, history = 0\<rparr>]"
  by (simp add: arena_def init_simps)

lemmas goal_simps =
  cache_of_def GoalCache_init_def GoalCache_append_def goal_at_def GoalCache_check_def
  SpatialGoal_check_def Goal_agents_def in_goal_radius_def np_where_def array_truth_def
  handle_agentmode_def agentmode_is_interact_def py_index_def manhattan_def arena_agents
  Let_def upt_rec numeral_2_eq_2

text \<open>No path through \<^verbatim>\<open>GoalCache.check\<close> changes the list of goals.\<close>

lemma handle_agentmode_same: "handle_agentmode rf gc = Inr gc1 \<Longrightarrow> gc1 = gc"
  by (auto simp: handle_agentmode_def agentmode_is_interact_def split: if_splits)

lemma check_sequential_goals:
  "goals (snd (check_sequential d as h rf i xs rs ags gc)) = goals gc"
proof (induction xs arbitrary: i rs ags gc)
  case Nil
  then show ?case by simp
next
  case (Cons a xs)
  show ?case
    by (auto simp: Let_def Cons.IH split: option.splits sum.splits prod.splits
             dest!: handle_agentmode_same)
qed

lemma GoalCache_check_goals:
  "goals (snd (GoalCache_check d as h rf gc)) = goals gc"
  by (auto simp: GoalCache_check_def check_sequential_goals split: sum.splits
           dest!: handle_agentmode_same)

text \<open>In the nonsequential mode every path through \<^verbatim>\<open>GoalCache.check\<close> ends in an
  exception.\<close>

lemma GoalCache_check_nonsequential_raises:
  "mode gc = ''nonsequential'' \<Longrightarrow> \<exists>e. fst (GoalCache_check d as h rf gc) = Inl e"
  by (auto simp: GoalCache_check_def split: sum.splits)

text \<open>
  \<^bold>\<open>C3.\<close> The claim: under the agent mode \<^verbatim>\<open>"interact"\<close> a goal that an agent satisfies
  during a check with \<^verbatim>\<open>remove_finished\<close> true is removed from the cache, so that it is
  absent on the following tick. The code at a cache of one goal and one agent standing
  on it (sequential mode, agent mode \<^verbatim>\<open>"interact"\<close>): the agent is credited and the goal
  is still in the cache after the check.
\<close>

theorem GoalCache_check_interact_keeps_goal:
  "fst (GoalCache_check manhattan [0] arena True
          (cache_of [0] ''sequential'' ''interact'' [goal_at [1 / 2, 1 / 2]]))
     = Inr ([[0]], [0])
   \<and> goals (snd (GoalCache_check manhattan [0] arena True
          (cache_of [0] ''sequential'' ''interact'' [goal_at [1 / 2, 1 / 2]])))
     = [goal_at [1 / 2, 1 / 2]]"
  by (simp add: goal_simps)

text \<open>
  A check restricted to one agent returns indices into the one-element list of that
  agent, so the only index it can return is \<open>0\<close>; the sequential loop credits agent \<open>i\<close>
  when that index equals \<open>i\<close>. Hence a sequential check credits no agent but the first
  of \<^verbatim>\<open>env.Agents\<close>.
\<close>

lemma SpatialGoal_check_single:
  "SpatialGoal_check d as h g (AgentObject a) = Inr (rs, idxs) \<Longrightarrow> set idxs \<subseteq> {0}"
  by (auto simp: SpatialGoal_check_def Goal_agents_def np_where_def Let_def
           split: sum.splits if_splits)

lemma array_truth_index:
  "array_truth (map (\<lambda>a. a = i) idxs) = Inr True \<Longrightarrow> i \<in> set idxs"
  by (cases idxs) (auto simp: array_truth_def split: list.splits)

lemma check_sequential_credits:
  "check_sequential d as h rf i xs rs ags gc = (Inr (rs1, ags1), gc1) \<Longrightarrow>
     set ags1 \<subseteq> set ags \<union> {0}"
proof (induction xs arbitrary: i rs ags gc)
  case Nil
  then show ?case by auto
next
  case (Cons a xs)
  from Cons.prems show ?case
    apply (simp add: Let_def split: option.splits sum.splits prod.splits if_splits)
     apply (frule SpatialGoal_check_single)
     apply (frule array_truth_index)
     apply (drule Cons.IH)
     apply auto[1]
    apply (drule Cons.IH)
    apply auto
    done
qed

lemma GoalCache_check_sequential_credits:
  "mode gc = ''sequential'' \<Longrightarrow> GoalCache_check d as h rf gc = (Inr (rs, ags), gc1) \<Longrightarrow>
     set ags \<subseteq> {0}"
  using check_sequential_credits [of d as h rf 0 as "[]" "[]" gc rs ags gc1]
  by (simp add: GoalCache_check_def)

text \<open>
  \<^bold>\<open>C4.\<close> The claim: in sequential mode, whenever agent \<open>i\<close> satisfies the goal it is
  owed, its reward is recorded for agent \<open>i\<close> and its cursor advances by one. The code at
  two agents that both stand on the first of two goals: both satisfy it, the check
  credits agent 0 only, and the cursor of agent 1 stays at \<open>-1\<close>.
\<close>

theorem GoalCache_check_sequential_second_agent:
  "SpatialGoal_check manhattan [0, 1] arena (goal_at [1 / 2, 1 / 2]) (AgentObject 1)
     = Inr ([0], [0])
   \<and> fst (GoalCache_check manhattan [0, 1] arena True
          (cache_of [0, 1] ''sequential'' ''any''
             [goal_at [1 / 2, 1 / 2], goal_at [9 / 10, 9 / 10]]))
     = Inr ([[0]], [0])
   \<and> last_acheived (snd (GoalCache_check manhattan [0, 1] arena True
          (cache_of [0, 1] ''sequential'' ''any''
             [goal_at [1 / 2, 1 / 2], goal_at [9 / 10, 9 / 10]]))) 0 = Some 0
   \<and> last_acheived (snd (GoalCache_check manhattan [0, 1] arena True
          (cache_of [0, 1] ''sequential'' ''any''
             [goal_at [1 / 2, 1 / 2], goal_at [9 / 10, 9 / 10]]))) 1 = Some (- 1)"
  by (simp add: goal_simps)

text \<open>
  \<^bold>\<open>C5.\<close> The claim: in nonsequential mode the check returns two parallel sequences,
  possibly empty. The code: with one goal the check ends in \<^verbatim>\<open>UnboundLocalError\<close> at its
  \<^verbatim>\<open>return\<close>, and with no goal in \<^verbatim>\<open>ValueError\<close> at the unpacking of \<^verbatim>\<open>zip\<close>.
\<close>

theorem GoalCache_check_nonsequential_fails:
  "fst (GoalCache_check manhattan [0, 1] arena True
          (cache_of [0, 1] ''nonsequential'' ''interact'' [goal_at [1 / 2, 1 / 2]]))
     = Inl UnboundLocalError
   \<and> fst (GoalCache_check manhattan [0, 1] arena True
          (cache_of [0, 1] ''nonsequential'' ''interact'' []))
     = Inl ValueError"
  by (simp add: goal_simps)

text \<open>
  \<^bold>\<open>C7, as stated, fails.\<close> With two agents inside the radius, \<^verbatim>\<open>SpatialGoal.check\<close>
  returns the address of the goal's own reward object twice: the two rewards are the
  same object, and it is the template.
\<close>

theorem SpatialGoal_check_returns_template:
  "SpatialGoal_check manhattan [0, 1] arena (goal_at [1 / 2, 1 / 2]) AgentsNone
     = Inr ([reward (goal_at [1 / 2, 1 / 2]), reward (goal_at [1 / 2, 1 / 2])], [0, 1])"
  by (simp add: goal_simps)

text \<open>An update of one reward object leaves every other reward object as it was.\<close>

lemma Reward_update_other:
  "b \<noteq> a \<Longrightarrow> rewards (snd (Reward_update a h)) ! b = rewards h ! b"
  by (auto simp: Reward_update_def Let_def split: sum.splits)

lemma RewardCache_append_copy:
  assumes "p < length (rewards h)" and "c < length (caches h)"
  shows "rewards (RewardCache_append c (Some p) True h) = rewards h @ [rewards h ! p]
       \<and> cache (caches (RewardCache_append c (Some p) True h) ! c)
           = cache (caches h ! c) @ [length (rewards h)]
       \<and> length (caches (RewardCache_append c (Some p) True h)) = length (caches h)"
  using assms
  by (simp add: RewardCache_append_def copy_reward_def new_reward_def push_cache_def)

text \<open>
  \<^bold>\<open>C7, amended.\<close> \<^verbatim>\<open>SpatialGoal.check\<close> returns the goal's reward object itself for every
  satisfying agent; the copy is made by \<^verbatim>\<open>RewardCache.append\<close> with its default
  \<^verbatim>\<open>copymode\<close>. Appending the reward at address \<open>p\<close> to a ledger \<open>ca\<close> and then to a
  ledger \<open>cb\<close> (the same or another) puts two new objects \<open>qa\<close> and \<open>qb\<close> at the end of
  the ledgers; they differ from each other and from \<open>p\<close>, carry the attribute values of
  \<open>p\<close>, and \<^verbatim>\<open>update()\<close> of any one of the three leaves the state of the other two as it
  was.
\<close>

theorem RewardCache_append_independent_copies:
  fixes h :: heap and p ca cb :: ref
  defines "ha \<equiv> RewardCache_append ca (Some p) True h"
  defines "hb \<equiv> RewardCache_append cb (Some p) True ha"
  defines "qa \<equiv> length (rewards h)"
  defines "qb \<equiv> Suc (length (rewards h))"
  assumes "p < length (rewards h)" and "ca < length (caches h)" and "cb < length (caches h)"
  shows "last (cache (caches ha ! ca)) = qa \<and> last (cache (caches hb ! cb)) = qb
       \<and> qa \<noteq> qb \<and> qa \<noteq> p \<and> qb \<noteq> p
       \<and> rewards hb ! qa = rewards h ! p \<and> rewards hb ! qb = rewards h ! p
       \<and> rewards hb ! p = rewards h ! p
       \<and> state (rewards (snd (Reward_update qa hb)) ! qb) = state (rewards hb ! qb)
       \<and> state (rewards (snd (Reward_update qa hb)) ! p) = state (rewards hb ! p)
       \<and> state (rewards (snd (Reward_update qb hb)) ! qa) = state (rewards hb ! qa)
       \<and> state (rewards (snd (Reward_update qb hb)) ! p) = state (rewards hb ! p)
       \<and> state (rewards (snd (Reward_update p hb)) ! qa) = state (rewards hb ! qa)
       \<and> state (rewards (snd (Reward_update p hb)) ! qb) = state (rewards hb ! qb)"
proof -
  have a1: "rewards ha = rewards h @ [rewards h ! p]"
      "cache (caches ha ! ca) = cache (caches h ! ca) @ [qa]"
      "length (caches ha) = length (caches h)"
    unfolding ha_def qa_def using RewardCache_append_copy [OF assms(5,6)] by auto
  have valid: "p < length (rewards ha)" and ledger: "cb < length (caches ha)"
    using a1 assms by auto
  have a2: "rewards hb = rewards ha @ [rewards ha ! p]"
      "cache (caches hb ! cb) = cache (caches ha ! cb) @ [length (rewards ha)]"
    unfolding hb_def using RewardCache_append_copy [OF valid ledger] by auto
  have ne: "qa \<noteq> qb" "qa \<noteq> p" "qb \<noteq> p"
    using assms(5) by (auto simp: qa_def qb_def)
  have vals: "rewards hb ! qa = rewards h ! p" "rewards hb ! qb = rewards h ! p"
      "rewards hb ! p = rewards h ! p"
    using assms(5) by (auto simp: a1 a2 qa_def qb_def nth_append)
  show ?thesis
    using a1(2) a2(2) ne vals Reward_update_other
    by (auto simp: a1(1) qb_def)
qed

text \<open>The default reward appended to the ledgers of two agents: the copies are the
  objects 1 and 2, and after an update of copy 1 (state \<open>0.99\<close>) copy 2 and the template
  still have state \<open>1\<close>.\<close>

theorem RewardCache_append_independent_copies_witness:
  "last (cache (caches (RewardCache_append 0 (Some 0) True two_ledgers) ! 0)) = 1
   \<and> last (cache (caches (RewardCache_append 1 (Some 0) True
        (RewardCache_append 0 (Some 0) True two_ledgers)) ! 1)) = 2
   \<and> state (rewards (snd (Reward_update 1 (RewardCache_append 1 (Some 0) True
        (RewardCache_append 0 (Some 0) True two_ledgers)))) ! 1) = 99 / 100
   \<and> state (rewards (snd (Reward_update 1 (RewardCache_append 1 (Some 0) True
        (RewardCache_append 0 (Some 0) True two_ledgers)))) ! 2) = 1
   \<and> state (rewards (snd (Reward_update 1 (RewardCache_append 1 (Some 0) True
        (RewardCache_append 0 (Some 0) True two_ledgers)))) ! 0) = 1"
  using RewardCache_append_independent_copies [of 0 two_ledgers 0 1]
  by (simp add: two_ledgers_def arena_rewards init_simps sweep_simps)


section \<open>Properties of the environments\<close>

lemmas env_simps =
  room_def add_agents_def list_truth_def enlist_agent_def dimension_of_def
  extent_bounds_def RewardCache_init_def empty_heap_def Let_def

text \<open>The guard of \<^verbatim>\<open>add_agents\<close> on the time steps fires for the empty list only: for a
  non-empty list of agents the call goes on to enlist them, whatever their time steps.\<close>

lemma add_agents_guard:
  "as \<noteq> [] \<Longrightarrow>
     add_agents (AgentListParam as) (Some ns) maxvel env h
       = enlist_agents maxvel (zip ns as) env h"
  by (simp add: add_agents_def list_truth_def)

lemma add_agents_empty:
  "add_agents (AgentListParam []) names maxvel env h = (Inl NotImplementedError, env, h)"
  by (simp add: add_agents_def list_truth_def)

text \<open>
  \<^bold>\<open>C9.\<close> The claim: \<^verbatim>\<open>add_agents\<close> raises when an agent's \<^verbatim>\<open>dt\<close> differs from the
  environment's. The code at an environment with \<open>dt = 0.01\<close> and one agent with
  \<open>dt = 0.02\<close>: the call returns normally and the agent is enlisted.
\<close>

theorem add_agents_accepts_other_dt:
  "agent_dt (agents slow_agent ! 0) \<noteq> env_dt room
   \<and> fst (add_agents (AgentParam 0) None 50 room slow_agent) = Inr ()
   \<and> Agents (fst (snd (add_agents (AgentParam 0) None 50 room slow_agent))) = [0]
   \<and> agent_names (fst (snd (add_agents (AgentParam 0) None 50 room slow_agent)))
       = [''agent_0'']
   \<and> reward_caches (fst (snd (add_agents (AgentParam 0) None 50 room slow_agent))) = [0]"
  by (simp add: env_simps slow_agent_def)

text \<open>After \<^verbatim>\<open>self.goal_cache.clear()\<close> the cache holds no goal, so the first lookup of a
  given location finds nothing.\<close>

lemma push_located_nonempty:
  "locs \<noteq> [] \<Longrightarrow>
     push_located locs (GoalCache_clear gc) = (Inl ValueError, GoalCache_clear gc)"
  by (cases locs) (simp_all add: GoalCache_clear_def GoalCache_find_def)

lemma reset_located_raises:
  "locs \<noteq> [] \<Longrightarrow> fst (TaskEnvironment_reset teleport env h) = Inr () \<Longrightarrow>
     fst (SpatialGoalEnvironment_reset teleport propose (Some locs) n env h) = Inl ValueError"
  by (auto simp: SpatialGoalEnvironment_reset_def push_located_nonempty Let_def
           split: prod.splits sum.splits)

text \<open>
  \<^bold>\<open>C8.\<close> The claim: \<^verbatim>\<open>reset(goal_locations)\<close> looks every entry up among the registered
  candidate goals and puts the goal found into the cache; it fails only for an entry
  that matches no candidate. The code at an environment whose only candidate goal (and
  current goal) is at \<open>(0.5, 0.5)\<close>, reset with that location: the lookup runs on the
  cache that was cleared the line before, and the call raises \<^verbatim>\<open>ValueError\<close> with an
  empty cache.
\<close>

theorem reset_rejects_registered_goal:
  "SpatialGoal_eq (goal_at [1 / 2, 1 / 2]) [1 / 2, 1 / 2]
   \<and> possible_goals room = [goal_at [1 / 2, 1 / 2]]
   \<and> goals (goal_cache room) = [goal_at [1 / 2, 1 / 2]]
   \<and> fst (SpatialGoalEnvironment_reset teleport propose (Some [[1 / 2, 1 / 2]]) None room h)
       = Inl ValueError
   \<and> goals (goal_cache (fst (snd
        (SpatialGoalEnvironment_reset teleport propose (Some [[1 / 2, 1 / 2]]) None room h))))
       = []"
  by (simp add: room_def SpatialGoalEnvironment_reset_def TaskEnvironment_reset_def
        write_start_episode_def current_episode_start_def GoalCache_clear_def
        GoalCache_find_def cache_of_def GoalCache_init_def GoalCache_append_def goal_at_def
        SpatialGoal_eq_def np_all_eq_def Let_def)

text \<open>No call of \<^verbatim>\<open>step\<close> on a \<^verbatim>\<open>SpatialGoalEnvironment\<close> returns: whatever the state and
  the actions, it ends in an exception.\<close>

lemma SpatialGoalEnvironment_step_raises:
  "\<exists>e. fst (SpatialGoalEnvironment_step agent_update teleport propose actions dt0 ratio env h)
         = Inl e"
  by (auto simp: SpatialGoalEnvironment_step_def TaskEnvironment_step_def
        SpatialGoalEnvironment_update_def SpatialGoalEnvironment_is_terminal_state_def Let_def
           split: prod.splits sum.splits)

lemma replicate_two: "replicate 2 x = [x, x]"
  by (simp add: numeral_2_eq_2)

lemma playing_eq:
  "playing =
     (room\<lparr>Agents := [0], agent_names := [''agent_0''], reward_caches := [0],
        action_spaces := [(''agent_0'', \<lparr>box_low = [0, 0], box_high = [50, 50]\<rparr>)],
        observation_spaces := [(''agent_0'', \<lparr>box_low = [0, 0], box_high = [1, 1]\<rparr>)]\<rparr>,
      \<lparr>rewards = rewards arena @ rewards arena,
       histories = [\<lparr>h_state = [], h_expire_clock = []\<rparr>],
       caches = [\<lparr>cache = [1], verbose = False\<rparr>],
       agents =
         [\<lparr>pos = [1 / 2, 1 / 2], agent_dt = 1 / 100, agent_t = 0, agent_reward = Some 0,
           pos_history = []\<rparr>,
          \<lparr>pos = [1 / 2, 1 / 2], agent_dt = 1 / 100, agent_t = 0, agent_reward = None,
           pos_history = []\<rparr>]\<rparr>)"
  by (simp add: playing_def room_def add_agents_def list_truth_def enlist_agent_def
        dimension_of_def extent_bounds_def arena_def init_simps replicate_two)

text \<open>
  \<^bold>\<open>C6.\<close> The claim: within one \<^verbatim>\<open>step\<close> the actions are applied, the ledgers are aged, the
  goal cache is resolved and its rewards are deposited, and termination is evaluated, so
  that a reward earned in a tick is counted in that tick's totals. The code at an
  environment whose agent stands on the goal and holds one reward of state \<open>1\<close>: the
  action is applied, the ledger is aged (state \<open>0.99\<close>) and the clock advances, then the
  terminal test raises \<^verbatim>\<open>AttributeError\<close> before the goal cache is resolved: no reward is
  deposited and no totals are returned.
\<close>

theorem step_raises_before_resolving_goals:
  "in_goal_radius manhattan (goal_at [1 / 2, 1 / 2]) (pos (agents (snd playing) ! 0))
     (goal_pos (goal_at [1 / 2, 1 / 2]))
   \<and> goals (goal_cache (fst playing)) = [goal_at [1 / 2, 1 / 2]]
   \<and> RewardCache_get_total 0 (snd playing) = 1
   \<and> fst (SpatialGoalEnvironment_step stand_still teleport propose
            (ActionDict [(''agent_0'', [0, 0])]) None 1 (fst playing) (snd playing))
       = Inl AttributeError
   \<and> env_t (fst (snd (SpatialGoalEnvironment_step stand_still teleport propose
            (ActionDict [(''agent_0'', [0, 0])]) None 1 (fst playing) (snd playing))))
       = 1 / 100
   \<and> cache (caches (snd (snd (SpatialGoalEnvironment_step stand_still teleport propose
            (ActionDict [(''agent_0'', [0, 0])]) None 1 (fst playing) (snd playing)))) ! 0)
       = [1]
   \<and> RewardCache_get_total 0 (snd (snd (SpatialGoalEnvironment_step stand_still teleport
            propose (ActionDict [(''agent_0'', [0, 0])]) None 1 (fst playing) (snd playing))))
       = 99 / 100"
  by (simp add: playing_eq room_def SpatialGoalEnvironment_step_def TaskEnvironment_step_def
        SpatialGoalEnvironment_update_def SpatialGoalEnvironment_is_terminal_state_def
        TaskEnvironment_update_def action_values_def stand_still_def RewardCache_get_total_def
        in_goal_radius_def goal_at_def manhattan_def cache_of_def GoalCache_init_def
        GoalCache_append_def arena_rewards sweep_simps)

end
